theory Spec2Isabelle
  imports Complex_Main
begin

section \<open>JavaScript numbers and values\<close>

text \<open>
  The editor (src/script.js) computes with JavaScript numbers. A finite number is modelled
  by the real it denotes (rounding and signed zero are left out); \<open>NaN\<close> and the two
  infinities are kept, because the program produces them from ordinary gestures
  (\<open>Math.abs(undefined)\<close>, a division by a zero baseline) and treats them
  differently from finite numbers (\<open>NaN || 0\<close>, \<open>JSON.stringify\<close>).
\<close>

datatype num = Fin real | NaN | PInf | NInf

fun nneg :: "num \<Rightarrow> num" where
  "nneg (Fin a) = Fin (- a)"
| "nneg NaN = NaN"
| "nneg PInf = NInf"
| "nneg NInf = PInf"

fun nadd :: "num \<Rightarrow> num \<Rightarrow> num" where
  "nadd (Fin a) (Fin b) = Fin (a + b)"
| "nadd NaN _ = NaN"
| "nadd _ NaN = NaN"
| "nadd PInf NInf = NaN"
| "nadd NInf PInf = NaN"
| "nadd PInf _ = PInf"
| "nadd _ PInf = PInf"
| "nadd NInf _ = NInf"
| "nadd _ NInf = NInf"

definition nsub :: "num \<Rightarrow> num \<Rightarrow> num" where
  "nsub a b = nadd a (nneg b)"

fun nmul :: "num \<Rightarrow> num \<Rightarrow> num" where
  "nmul (Fin a) (Fin b) = Fin (a * b)"
| "nmul NaN _ = NaN"
| "nmul _ NaN = NaN"
| "nmul PInf (Fin b) = (if b = 0 then NaN else if 0 < b then PInf else NInf)"
| "nmul NInf (Fin b) = (if b = 0 then NaN else if 0 < b then NInf else PInf)"
| "nmul (Fin a) PInf = (if a = 0 then NaN else if 0 < a then PInf else NInf)"
| "nmul (Fin a) NInf = (if a = 0 then NaN else if 0 < a then NInf else PInf)"
| "nmul PInf PInf = PInf"
| "nmul PInf NInf = NInf"
| "nmul NInf PInf = NInf"
| "nmul NInf NInf = PInf"

text \<open>Division: a finite nonzero number over zero is an infinity, zero over zero is NaN.\<close>

fun ndiv :: "num \<Rightarrow> num \<Rightarrow> num" where
  "ndiv (Fin a) (Fin b) =
     (if b = 0 then (if a = 0 then NaN else if 0 < a then PInf else NInf) else Fin (a / b))"
| "ndiv NaN _ = NaN"
| "ndiv _ NaN = NaN"
| "ndiv (Fin a) PInf = Fin 0"
| "ndiv (Fin a) NInf = Fin 0"
| "ndiv PInf (Fin b) = (if 0 \<le> b then PInf else NInf)"
| "ndiv NInf (Fin b) = (if 0 \<le> b then NInf else PInf)"
| "ndiv PInf PInf = NaN"
| "ndiv PInf NInf = NaN"
| "ndiv NInf PInf = NaN"
| "ndiv NInf NInf = NaN"

fun nabs :: "num \<Rightarrow> num" where
  "nabs (Fin a) = Fin \<bar>a\<bar>"
| "nabs NaN = NaN"
| "nabs PInf = PInf"
| "nabs NInf = PInf"

text \<open>Comparisons: every comparison with NaN is false.\<close>

fun nlt :: "num \<Rightarrow> num \<Rightarrow> bool" where
  "nlt (Fin a) (Fin b) = (a < b)"
| "nlt NaN _ = False"
| "nlt _ NaN = False"
| "nlt _ NInf = False"
| "nlt PInf _ = False"
| "nlt NInf _ = True"
| "nlt _ PInf = True"

fun nle :: "num \<Rightarrow> num \<Rightarrow> bool" where
  "nle (Fin a) (Fin b) = (a \<le> b)"
| "nle NaN _ = False"
| "nle _ NaN = False"
| "nle NInf _ = True"
| "nle _ PInf = True"
| "nle PInf _ = False"
| "nle _ NInf = False"

fun nseq :: "num \<Rightarrow> num \<Rightarrow> bool" where
  "nseq (Fin a) (Fin b) = (a = b)"
| "nseq PInf PInf = True"
| "nseq NInf NInf = True"
| "nseq _ _ = False"

fun nsqrt :: "num \<Rightarrow> num" where
  "nsqrt (Fin a) = (if a < 0 then NaN else Fin (sqrt a))"
| "nsqrt NaN = NaN"
| "nsqrt PInf = PInf"
| "nsqrt NInf = NaN"

fun ncos :: "num \<Rightarrow> num" where
  "ncos (Fin a) = Fin (cos a)"
| "ncos _ = NaN"

fun nsin :: "num \<Rightarrow> num" where
  "nsin (Fin a) = Fin (sin a)"
| "nsin _ = NaN"

text \<open>\<open>Math.min\<close> and \<open>Math.max\<close> of two numbers; NaN if either is NaN.\<close>

fun nmin :: "num \<Rightarrow> num \<Rightarrow> num" where
  "nmin NaN _ = NaN"
| "nmin _ NaN = NaN"
| "nmin a b = (if nle a b then a else b)"

fun nmax :: "num \<Rightarrow> num \<Rightarrow> num" where
  "nmax NaN _ = NaN"
| "nmax _ NaN = NaN"
| "nmax a b = (if nle a b then b else a)"

text \<open>\<open>Math.min(...xs)\<close> and \<open>Math.max(...xs)\<close>: the empty spread gives the infinities.\<close>

definition minList :: "num list \<Rightarrow> num" where
  "minList xs = foldr nmin xs PInf"

definition maxList :: "num list \<Rightarrow> num" where
  "maxList xs = foldr nmax xs NInf"

text \<open>\<open>Math.atan2(y, x)\<close>, with the results the language fixes for the axes and infinities.\<close>

fun natan2 :: "num \<Rightarrow> num \<Rightarrow> num" where
  "natan2 (Fin b) (Fin a) =
     Fin (if 0 < a then arctan (b / a)
          else if a < 0 then (if 0 \<le> b then arctan (b / a) + pi else arctan (b / a) - pi)
          else if 0 < b then pi / 2 else if b < 0 then - (pi / 2) else 0)"
| "natan2 NaN _ = NaN"
| "natan2 _ NaN = NaN"
| "natan2 (Fin b) PInf = Fin 0"
| "natan2 (Fin b) NInf = Fin (if 0 \<le> b then pi else - pi)"
| "natan2 PInf (Fin a) = Fin (pi / 2)"
| "natan2 NInf (Fin a) = Fin (- (pi / 2))"
| "natan2 PInf PInf = Fin (pi / 4)"
| "natan2 PInf NInf = Fin (3 * pi / 4)"
| "natan2 NInf PInf = Fin (- (pi / 4))"
| "natan2 NInf NInf = Fin (- (3 * pi / 4))"

text \<open>
  A property of an object holds a number, \<open>null\<close> (what \<open>JSON.parse\<close> gives back for a
  NaN that was serialised) or nothing (\<open>undefined\<close>). Arithmetic converts its operands
  with \<open>ToNumber\<close>; \<open>||\<close> and \<open>!\<close> test truthiness.
\<close>

datatype jsval = Undefined | Null | Number num

abbreviation N :: "real \<Rightarrow> jsval" where
  "N r \<equiv> Number (Fin r)"

fun toNumber :: "jsval \<Rightarrow> num" where
  "toNumber Undefined = NaN"
| "toNumber Null = Fin 0"
| "toNumber (Number n) = n"

fun truthy :: "jsval \<Rightarrow> bool" where
  "truthy (Number (Fin a)) = (a \<noteq> 0)"
| "truthy (Number PInf) = True"
| "truthy (Number NInf) = True"
| "truthy _ = False"

definition jor :: "jsval \<Rightarrow> jsval \<Rightarrow> jsval" where
  "jor a b = (if truthy a then a else b)"

definition jadd :: "jsval \<Rightarrow> jsval \<Rightarrow> jsval" where
  "jadd a b = Number (nadd (toNumber a) (toNumber b))"

definition jsub :: "jsval \<Rightarrow> jsval \<Rightarrow> jsval" where
  "jsub a b = Number (nsub (toNumber a) (toNumber b))"

definition jmul :: "jsval \<Rightarrow> jsval \<Rightarrow> jsval" where
  "jmul a b = Number (nmul (toNumber a) (toNumber b))"

definition jdiv :: "jsval \<Rightarrow> jsval \<Rightarrow> jsval" where
  "jdiv a b = Number (ndiv (toNumber a) (toNumber b))"

definition jneg :: "jsval \<Rightarrow> jsval" where
  "jneg a = Number (nneg (toNumber a))"

definition jabs :: "jsval \<Rightarrow> jsval" where
  "jabs a = Number (nabs (toNumber a))"

definition jsqrt :: "jsval \<Rightarrow> jsval" where
  "jsqrt a = Number (nsqrt (toNumber a))"

definition jcos :: "jsval \<Rightarrow> jsval" where
  "jcos a = Number (ncos (toNumber a))"

definition jsin :: "jsval \<Rightarrow> jsval" where
  "jsin a = Number (nsin (toNumber a))"

definition jatan2 :: "jsval \<Rightarrow> jsval \<Rightarrow> jsval" where
  "jatan2 b a = Number (natan2 (toNumber b) (toNumber a))"

definition jlt :: "jsval \<Rightarrow> jsval \<Rightarrow> bool" where
  "jlt a b = nlt (toNumber a) (toNumber b)"

definition jle :: "jsval \<Rightarrow> jsval \<Rightarrow> bool" where
  "jle a b = nle (toNumber a) (toNumber b)"

definition jgt :: "jsval \<Rightarrow> jsval \<Rightarrow> bool" where
  "jgt a b = nlt (toNumber b) (toNumber a)"

definition jge :: "jsval \<Rightarrow> jsval \<Rightarrow> bool" where
  "jge a b = nle (toNumber b) (toNumber a)"

text \<open>Strict equality \<open>===\<close> on these values: no conversion, and NaN equals nothing.\<close>

fun jseq :: "jsval \<Rightarrow> jsval \<Rightarrow> bool" where
  "jseq Undefined Undefined = True"
| "jseq Null Null = True"
| "jseq (Number a) (Number b) = nseq a b"
| "jseq _ _ = False"

definition jmin :: "jsval list \<Rightarrow> jsval" where
  "jmin xs = Number (minList (map toNumber xs))"

definition jmax :: "jsval list \<Rightarrow> jsval" where
  "jmax xs = Number (maxList (map toNumber xs))"

section \<open>Binary64 arithmetic\<close>

text \<open>
  A JavaScript number is a binary64 floating-point number: \<open>+\<close>, \<open>-\<close>, \<open>*\<close> and
  \<open>/\<close> give the binary64 number nearest to the exact result, a tie going to the even
  significand, and an infinity when the rounded result has magnitude \<open>2 ^ 1024\<close> or
  more. The arithmetic above leaves this rounding out. It decides what a creation drag
  commits and how the angles of rotate drags add up, so each function on these two paths
  is given twice below: with the exact operations, and under a name that ends in \<open>64\<close>
  with every operation rounded.

  \<open>rne\<close> rounds a real to the nearest integer, ties to even. \<open>round64\<close> rounds a real
  to binary64: the result is a multiple of \<open>2 powr (e - 52)\<close>, where \<open>e\<close> is the
  exponent of the binade of the argument and at least \<open>- 1022\<close>, the exponent of the
  subnormal numbers. A finite
  binary64 number is still written as the real it denotes, and signed zero is left out.
  \<open>fround\<close> rounds a finite exact result and keeps NaN and the infinities.
\<close>

definition rne :: "real \<Rightarrow> int" where
  "rne x =
     (let f = \<lfloor>x\<rfloor>; d = x - of_int f
      in if d < 1 / 2 then f else if 1 / 2 < d then f + 1 else if even f then f else f + 1)"

definition round64 :: "real \<Rightarrow> num" where
  "round64 x =
     (if x = 0 then Fin 0
      else (let e = max \<lfloor>log 2 \<bar>x\<bar>\<rfloor> (- 1022);
                q = 2 powr (of_int e - 52);
                y = of_int (rne (x / q)) * q
            in if 2 ^ 1024 \<le> \<bar>y\<bar> then (if 0 < x then PInf else NInf) else Fin y))"

fun fround :: "num \<Rightarrow> num" where
  "fround (Fin a) = round64 a"
| "fround NaN = NaN"
| "fround PInf = PInf"
| "fround NInf = NInf"

definition jadd64 :: "jsval \<Rightarrow> jsval \<Rightarrow> jsval" where
  "jadd64 a b = Number (fround (nadd (toNumber a) (toNumber b)))"

definition jsub64 :: "jsval \<Rightarrow> jsval \<Rightarrow> jsval" where
  "jsub64 a b = Number (fround (nsub (toNumber a) (toNumber b)))"

definition jmul64 :: "jsval \<Rightarrow> jsval \<Rightarrow> jsval" where
  "jmul64 a b = Number (fround (nmul (toNumber a) (toNumber b)))"

definition jdiv64 :: "jsval \<Rightarrow> jsval \<Rightarrow> jsval" where
  "jdiv64 a b = Number (fround (ndiv (toNumber a) (toNumber b)))"

text \<open>
  \<open>Math.cos\<close>, \<open>Math.sin\<close> and \<open>Math.atan2\<close> are taken to return the binary64 number
  nearest to the exact value. Negation, \<open>Math.abs\<close>, \<open>Math.min\<close>, \<open>Math.max\<close> and the
  comparisons are exact on binary64 numbers and stay as they are.
\<close>

definition jcos64 :: "jsval \<Rightarrow> jsval" where
  "jcos64 a = Number (fround (ncos (toNumber a)))"

definition jsin64 :: "jsval \<Rightarrow> jsval" where
  "jsin64 a = Number (fround (nsin (toNumber a)))"

definition jatan2_64 :: "jsval \<Rightarrow> jsval \<Rightarrow> jsval" where
  "jatan2_64 b a = Number (fround (natan2 (toNumber b) (toNumber a)))"

section \<open>Annotation objects\<close>

text \<open>
  The tool names of the toolbar; an object's \<open>type\<close> is the name of the tool (or of the
  shape picked in the shape menu) that made it.
\<close>

datatype tool =
  Select | Crop | Text | Rect | Circle | Arrow | Brush | Numbers | Blur | Eraser
  | Shape | Check | Cross

record point =
  p_x :: jsval
  p_y :: jsval

text \<open>
  An object is a JavaScript object literal: every property the program ever sets is a
  field, and a property the object does not have is \<open>Undefined\<close> (\<open>None\<close> for the
  text, flag and array properties).
\<close>

record obj =
  o_type :: tool
  o_color :: string
  o_rotation :: jsval
  o_x :: jsval
  o_y :: jsval
  o_width :: jsval
  o_height :: jsval
  o_lineWidth :: jsval
  o_originalWidth :: jsval
  o_originalHeight :: jsval
  o_number :: jsval
  o_radius :: jsval
  o_text :: "string option"
  o_size :: jsval
  o_family :: "string option"
  o_bold :: "bool option"
  o_italic :: "bool option"
  o_underline :: "bool option"
  o_originalSize :: jsval
  o_points :: "point list option"
  o_initialRotation :: jsval
  o_isAllSelected :: "bool option"

record bounds =
  b_x :: jsval
  b_y :: jsval
  b_width :: jsval
  b_height :: jsval

section \<open>Geometry\<close>

text \<open>
  \<open>getTextFont\<close> (script.js 2115-2122) builds the CSS font string from four properties
  of the object; the record \<open>font\<close> holds those four. What the canvas measures for a
  string in a font is a parameter of the model, \<open>measureText\<close>. \<open>textOf\<close> is the
  string that \<open>measureText(obj.text)\<close> measures.
\<close>

record font =
  f_bold :: bool
  f_italic :: bool
  f_size :: jsval
  f_family :: string

type_synonym metrics = "font \<Rightarrow> string \<Rightarrow> real"

definition getTextFont :: "obj \<Rightarrow> font" where
  "getTextFont obj =
     \<lparr>f_bold = (o_bold obj = Some True), f_italic = (o_italic obj = Some True),
      f_size = o_size obj,
      f_family = (case o_family obj of None \<Rightarrow> ''Arial''
                  | Some fam \<Rightarrow> if fam = [] then ''Arial'' else fam)\<rparr>"

definition textOf :: "obj \<Rightarrow> string" where
  "textOf obj = (case o_text obj of None \<Rightarrow> ''undefined'' | Some t \<Rightarrow> t)"

text \<open>
  \<open>getObjectBounds\<close> (script.js 1707-1803). The brush and eraser cases of the
  switch are the same code, \<open>pointsBounds\<close>: the box around the points when the object
  has a non-empty \<open>points\<close> array, a square of side \<open>lineWidth\<close> around \<open>(x, y)\<close>
  otherwise. The function is applied to objects of the drawing stack only, so its first
  line, which answers a missing object with an empty box, is left out.
\<close>

definition pointsBounds :: "obj \<Rightarrow> bounds" where
  "pointsBounds obj =
     (case o_points obj of
        Some (p # ps) \<Rightarrow>
          (let xs = map p_x (p # ps);
               ys = map p_y (p # ps);
               minX = jsub (jmin xs) (jdiv (o_lineWidth obj) (N 2));
               maxX = jadd (jmax xs) (jdiv (o_lineWidth obj) (N 2));
               minY = jsub (jmin ys) (jdiv (o_lineWidth obj) (N 2));
               maxY = jadd (jmax ys) (jdiv (o_lineWidth obj) (N 2))
           in \<lparr>b_x = minX, b_y = minY, b_width = jsub maxX minX, b_height = jsub maxY minY\<rparr>)
      | _ \<Rightarrow>
          \<lparr>b_x = jsub (o_x obj) (jdiv (o_lineWidth obj) (N 2)),
           b_y = jsub (o_y obj) (jdiv (o_lineWidth obj) (N 2)),
           b_width = o_lineWidth obj, b_height = o_lineWidth obj\<rparr>)"

definition rotateCorner :: "jsval \<Rightarrow> jsval \<Rightarrow> jsval \<Rightarrow> point \<Rightarrow> point" where
  "rotateCorner rot centerX centerY corner =
     (let dx = jsub (p_x corner) centerX;
          dy = jsub (p_y corner) centerY
      in \<lparr>p_x = jsub (jadd centerX (jmul dx (jcos rot))) (jmul dy (jsin rot)),
          p_y = jadd (jadd centerY (jmul dx (jsin rot))) (jmul dy (jcos rot))\<rparr>)"

definition getObjectBounds :: "metrics \<Rightarrow> obj \<Rightarrow> bounds" where
  "getObjectBounds measureText obj =
     (let bounds =
        (case o_type obj of
           Numbers \<Rightarrow>
             \<lparr>b_x = jsub (o_x obj) (o_radius obj), b_y = jsub (o_y obj) (o_radius obj),
              b_width = jmul (o_radius obj) (N 2), b_height = jmul (o_radius obj) (N 2)\<rparr>
         | Text \<Rightarrow>
             \<lparr>b_x = o_x obj, b_y = o_y obj,
              b_width = N (measureText (getTextFont obj) (textOf obj)), b_height = o_size obj\<rparr>
         | Brush \<Rightarrow> pointsBounds obj
         | Eraser \<Rightarrow> pointsBounds obj
         | _ \<Rightarrow>
             \<lparr>b_x = o_x obj, b_y = o_y obj,
              b_width = jor (o_width obj) (N 0), b_height = jor (o_height obj) (N 0)\<rparr>)
      in
      if truthy (o_rotation obj) \<and> \<not> jseq (o_rotation obj) (N 0) then
        if o_type obj = Numbers \<or> o_type obj = Circle then bounds
        else
          (let centerX = jadd (b_x bounds) (jdiv (b_width bounds) (N 2));
               centerY = jadd (b_y bounds) (jdiv (b_height bounds) (N 2));
               corners =
                 [\<lparr>p_x = b_x bounds, p_y = b_y bounds\<rparr>,
                  \<lparr>p_x = jadd (b_x bounds) (b_width bounds), p_y = b_y bounds\<rparr>,
                  \<lparr>p_x = jadd (b_x bounds) (b_width bounds),
                   p_y = jadd (b_y bounds) (b_height bounds)\<rparr>,
                  \<lparr>p_x = b_x bounds, p_y = jadd (b_y bounds) (b_height bounds)\<rparr>];
               rotatedCorners = map (rotateCorner (o_rotation obj) centerX centerY) corners;
               xs = map p_x rotatedCorners;
               ys = map p_y rotatedCorners;
               minX = jmin xs;
               maxX = jmax xs;
               minY = jmin ys;
               maxY = jmax ys
           in \<lparr>b_x = minX, b_y = minY, b_width = jsub maxX minX, b_height = jsub maxY minY\<rparr>)
      else bounds)"

text \<open>
  The same three functions in binary64. \<open>Math.min\<close> and \<open>Math.max\<close> are exact.
\<close>

definition pointsBounds64 :: "obj \<Rightarrow> bounds" where
  "pointsBounds64 obj =
     (case o_points obj of
        Some (p # ps) \<Rightarrow>
          (let xs = map p_x (p # ps);
               ys = map p_y (p # ps);
               minX = jsub64 (jmin xs) (jdiv64 (o_lineWidth obj) (N 2));
               maxX = jadd64 (jmax xs) (jdiv64 (o_lineWidth obj) (N 2));
               minY = jsub64 (jmin ys) (jdiv64 (o_lineWidth obj) (N 2));
               maxY = jadd64 (jmax ys) (jdiv64 (o_lineWidth obj) (N 2))
           in \<lparr>b_x = minX, b_y = minY, b_width = jsub64 maxX minX,
               b_height = jsub64 maxY minY\<rparr>)
      | _ \<Rightarrow>
          \<lparr>b_x = jsub64 (o_x obj) (jdiv64 (o_lineWidth obj) (N 2)),
           b_y = jsub64 (o_y obj) (jdiv64 (o_lineWidth obj) (N 2)),
           b_width = o_lineWidth obj, b_height = o_lineWidth obj\<rparr>)"

definition rotateCorner64 :: "jsval \<Rightarrow> jsval \<Rightarrow> jsval \<Rightarrow> point \<Rightarrow> point" where
  "rotateCorner64 rot centerX centerY corner =
     (let dx = jsub64 (p_x corner) centerX;
          dy = jsub64 (p_y corner) centerY
      in \<lparr>p_x = jsub64 (jadd64 centerX (jmul64 dx (jcos64 rot))) (jmul64 dy (jsin64 rot)),
          p_y = jadd64 (jadd64 centerY (jmul64 dx (jsin64 rot))) (jmul64 dy (jcos64 rot))\<rparr>)"

definition getObjectBounds64 :: "metrics \<Rightarrow> obj \<Rightarrow> bounds" where
  "getObjectBounds64 measureText obj =
     (let bounds =
        (case o_type obj of
           Numbers \<Rightarrow>
             \<lparr>b_x = jsub64 (o_x obj) (o_radius obj), b_y = jsub64 (o_y obj) (o_radius obj),
              b_width = jmul64 (o_radius obj) (N 2), b_height = jmul64 (o_radius obj) (N 2)\<rparr>
         | Text \<Rightarrow>
             \<lparr>b_x = o_x obj, b_y = o_y obj,
              b_width = N (measureText (getTextFont obj) (textOf obj)), b_height = o_size obj\<rparr>
         | Brush \<Rightarrow> pointsBounds64 obj
         | Eraser \<Rightarrow> pointsBounds64 obj
         | _ \<Rightarrow>
             \<lparr>b_x = o_x obj, b_y = o_y obj,
              b_width = jor (o_width obj) (N 0), b_height = jor (o_height obj) (N 0)\<rparr>)
      in
      if truthy (o_rotation obj) \<and> \<not> jseq (o_rotation obj) (N 0) then
        if o_type obj = Numbers \<or> o_type obj = Circle then bounds
        else
          (let centerX = jadd64 (b_x bounds) (jdiv64 (b_width bounds) (N 2));
               centerY = jadd64 (b_y bounds) (jdiv64 (b_height bounds) (N 2));
               corners =
                 [\<lparr>p_x = b_x bounds, p_y = b_y bounds\<rparr>,
                  \<lparr>p_x = jadd64 (b_x bounds) (b_width bounds), p_y = b_y bounds\<rparr>,
                  \<lparr>p_x = jadd64 (b_x bounds) (b_width bounds),
                   p_y = jadd64 (b_y bounds) (b_height bounds)\<rparr>,
                  \<lparr>p_x = b_x bounds, p_y = jadd64 (b_y bounds) (b_height bounds)\<rparr>];
               rotatedCorners = map (rotateCorner64 (o_rotation obj) centerX centerY) corners;
               xs = map p_x rotatedCorners;
               ys = map p_y rotatedCorners;
               minX = jmin xs;
               maxX = jmax xs;
               minY = jmin ys;
               maxY = jmax ys
           in \<lparr>b_x = minX, b_y = minY, b_width = jsub64 maxX minX,
               b_height = jsub64 maxY minY\<rparr>)
      else bounds)"

text \<open>\<open>distanceToLineSegment\<close> (script.js 1689-1705).\<close>

definition distanceToLineSegment ::
  "jsval \<Rightarrow> jsval \<Rightarrow> jsval \<Rightarrow> jsval \<Rightarrow> jsval \<Rightarrow> jsval \<Rightarrow> jsval" where
  "distanceToLineSegment px py x1 y1 x2 y2 =
     (let dx = jsub x2 x1;
          dy = jsub y2 y1;
          len = jsqrt (jadd (jmul dx dx) (jmul dy dy))
      in if jseq len (N 0) then
           jsqrt (jadd (jmul (jsub px x1) (jsub px x1)) (jmul (jsub py y1) (jsub py y1)))
         else
           (let t = jmax [N 0, jmin [N 1,
                      jdiv (jadd (jmul (jsub px x1) dx) (jmul (jsub py y1) dy)) (jmul len len)]];
                projection = \<lparr>p_x = jadd x1 (jmul t dx), p_y = jadd y1 (jmul t dy)\<rparr>
            in jsqrt (jadd (jmul (jsub px (p_x projection)) (jsub px (p_x projection)))
                           (jmul (jsub py (p_y projection)) (jsub py (p_y projection))))))"

text \<open>
  \<open>getObjectAt\<close> (script.js 1649-1686). \<open>strokeHit\<close> is the inner loop over the
  consecutive points of a brush stroke, \<open>objectHit\<close> the body of the outer loop for one
  object (true where the source returns the object, false where it goes on to the next
  one), and \<open>getObjectAtFrom\<close> the outer loop, from the last index down to 0. The result
  is the index of the object returned, \<open>None\<close> for \<open>null\<close>. \<open>pointsOf\<close> reads the
  \<open>points\<close> array, empty when the object has none, so that
  \<open>obj.points && obj.points.length > 0\<close> is \<open>pointsOf obj \<noteq> []\<close>.
\<close>

fun strokeHit :: "jsval \<Rightarrow> jsval \<Rightarrow> jsval \<Rightarrow> point list \<Rightarrow> bool" where
  "strokeHit x y tolerance (p1 # p2 # ps) =
     (if jle (distanceToLineSegment x y (p_x p1) (p_y p1) (p_x p2) (p_y p2)) tolerance
      then True else strokeHit x y tolerance (p2 # ps))"
| "strokeHit x y tolerance ps = False"

definition pointsOf :: "obj \<Rightarrow> point list" where
  "pointsOf obj = (case o_points obj of Some ps \<Rightarrow> ps | None \<Rightarrow> [])"

definition objectHit :: "metrics \<Rightarrow> jsval \<Rightarrow> jsval \<Rightarrow> obj \<Rightarrow> bool" where
  "objectHit measureText x y obj =
     (if o_type obj = Brush \<and> pointsOf obj \<noteq> [] then
        strokeHit x y (jadd (jdiv (o_lineWidth obj) (N 2)) (N 2)) (pointsOf obj)
      else if o_type obj = Arrow then
        jle (distanceToLineSegment x y (o_x obj) (o_y obj)
               (jadd (o_x obj) (o_width obj)) (jadd (o_y obj) (o_height obj)))
            (jadd (jdiv (o_lineWidth obj) (N 2)) (N 2))
      else
        (let bounds = getObjectBounds measureText obj;
             tolerance = N 3
         in jge x (jsub (b_x bounds) tolerance) \<and>
            jle x (jadd (jadd (b_x bounds) (b_width bounds)) tolerance) \<and>
            jge y (jsub (b_y bounds) tolerance) \<and>
            jle y (jadd (jadd (b_y bounds) (b_height bounds)) tolerance)))"

fun getObjectAtFrom :: "metrics \<Rightarrow> obj list \<Rightarrow> jsval \<Rightarrow> jsval \<Rightarrow> nat \<Rightarrow> nat option" where
  "getObjectAtFrom measureText objs x y 0 = None"
| "getObjectAtFrom measureText objs x y (Suc i) =
     (if objectHit measureText x y (objs ! i) then Some i
      else getObjectAtFrom measureText objs x y i)"

definition getObjectAt :: "metrics \<Rightarrow> obj list \<Rightarrow> jsval \<Rightarrow> jsval \<Rightarrow> nat option" where
  "getObjectAt measureText objs x y = getObjectAtFrom measureText objs x y (length objs)"

section \<open>Transform controller\<close>

datatype handle = nw_resize | ne_resize | sw_resize | se_resize | rotate

text \<open>
  \<open>applyResize\<close> (script.js 605-683). The global \<open>initialBounds\<close> is the first
  argument (\<open>None\<close> for \<open>null\<close>); the object is mutated in place in the source and
  returned here. An early \<open>return\<close> gives back the object as it is at that point.
\<close>

definition applyResize ::
  "bounds option \<Rightarrow> obj \<Rightarrow> handle \<Rightarrow> jsval \<Rightarrow> jsval \<Rightarrow> jsval \<Rightarrow> jsval \<Rightarrow> obj" where
  "applyResize initialBounds obj handleType newX newY initialMouseX initialMouseY =
     (case initialBounds of
        None \<Rightarrow> obj
      | Some ib \<Rightarrow>
          if handleType = rotate then
            (let centerX = jadd (b_x ib) (jdiv (b_width ib) (N 2));
                 centerY = jadd (b_y ib) (jdiv (b_height ib) (N 2));
                 currentAngle = jatan2 (jsub newY centerY) (jsub newX centerX);
                 initialAngle = jatan2 (jsub initialMouseY centerY) (jsub initialMouseX centerX);
                 deltaRotation = jsub currentAngle initialAngle
             in obj\<lparr>o_rotation := jadd (jor (o_initialRotation obj) (N 0)) deltaRotation\<rparr>)
          else
            (let deltaX = jsub newX initialMouseX;
                 deltaY = jsub newY initialMouseY;
                 newBounds =
                   (case handleType of
                      nw_resize \<Rightarrow>
                        \<lparr>b_x = jadd (b_x ib) deltaX, b_y = jadd (b_y ib) deltaY,
                         b_width = jsub (b_width ib) deltaX, b_height = jsub (b_height ib) deltaY\<rparr>
                    | ne_resize \<Rightarrow>
                        \<lparr>b_x = b_x ib, b_y = jadd (b_y ib) deltaY,
                         b_width = jadd (b_width ib) deltaX, b_height = jsub (b_height ib) deltaY\<rparr>
                    | sw_resize \<Rightarrow>
                        \<lparr>b_x = jadd (b_x ib) deltaX, b_y = b_y ib,
                         b_width = jsub (b_width ib) deltaX, b_height = jadd (b_height ib) deltaY\<rparr>
                    | se_resize \<Rightarrow>
                        \<lparr>b_x = b_x ib, b_y = b_y ib,
                         b_width = jadd (b_width ib) deltaX, b_height = jadd (b_height ib) deltaY\<rparr>
                    | rotate \<Rightarrow> ib);
                 minSize = N 5
             in if jlt (jabs (b_width newBounds)) minSize then obj
                else if jlt (jabs (b_height newBounds)) minSize then obj
                else if o_type obj = Text then
                  (let obj1 = (if \<not> truthy (o_originalSize obj)
                               then obj\<lparr>o_originalSize := o_size obj\<rparr> else obj);
                       heightScale = jdiv (jabs (b_height newBounds)) (b_height ib);
                       newSize = jmul (o_originalSize obj1) heightScale
                   in if jlt newSize (N 4) then obj1
                      else obj1\<lparr>o_x := b_x newBounds, o_y := b_y newBounds, o_size := newSize\<rparr>)
                else
                  (let obj1 = (if \<not> truthy (o_originalWidth obj)
                               then obj\<lparr>o_originalWidth := o_width obj\<rparr> else obj);
                       obj2 = (if \<not> truthy (o_originalHeight obj1)
                               then obj1\<lparr>o_originalHeight := o_height obj1\<rparr> else obj1);
                       scaleX = jdiv (b_width newBounds) (b_width ib);
                       scaleY = jdiv (b_height newBounds) (b_height ib)
                   in obj2\<lparr>o_x := b_x newBounds, o_y := b_y newBounds,
                           o_width := jmul (o_originalWidth obj2) scaleX,
                           o_height := jmul (o_originalHeight obj2) scaleY\<rparr>)))"

text \<open>\<open>applyResize\<close> in binary64.\<close>

definition applyResize64 ::
  "bounds option \<Rightarrow> obj \<Rightarrow> handle \<Rightarrow> jsval \<Rightarrow> jsval \<Rightarrow> jsval \<Rightarrow> jsval \<Rightarrow> obj" where
  "applyResize64 initialBounds obj handleType newX newY initialMouseX initialMouseY =
     (case initialBounds of
        None \<Rightarrow> obj
      | Some ib \<Rightarrow>
          if handleType = rotate then
            (let centerX = jadd64 (b_x ib) (jdiv64 (b_width ib) (N 2));
                 centerY = jadd64 (b_y ib) (jdiv64 (b_height ib) (N 2));
                 currentAngle = jatan2_64 (jsub64 newY centerY) (jsub64 newX centerX);
                 initialAngle =
                   jatan2_64 (jsub64 initialMouseY centerY) (jsub64 initialMouseX centerX);
                 deltaRotation = jsub64 currentAngle initialAngle
             in obj\<lparr>o_rotation := jadd64 (jor (o_initialRotation obj) (N 0)) deltaRotation\<rparr>)
          else
            (let deltaX = jsub64 newX initialMouseX;
                 deltaY = jsub64 newY initialMouseY;
                 newBounds =
                   (case handleType of
                      nw_resize \<Rightarrow>
                        \<lparr>b_x = jadd64 (b_x ib) deltaX, b_y = jadd64 (b_y ib) deltaY,
                         b_width = jsub64 (b_width ib) deltaX,
                         b_height = jsub64 (b_height ib) deltaY\<rparr>
                    | ne_resize \<Rightarrow>
                        \<lparr>b_x = b_x ib, b_y = jadd64 (b_y ib) deltaY,
                         b_width = jadd64 (b_width ib) deltaX,
                         b_height = jsub64 (b_height ib) deltaY\<rparr>
                    | sw_resize \<Rightarrow>
                        \<lparr>b_x = jadd64 (b_x ib) deltaX, b_y = b_y ib,
                         b_width = jsub64 (b_width ib) deltaX,
                         b_height = jadd64 (b_height ib) deltaY\<rparr>
                    | se_resize \<Rightarrow>
                        \<lparr>b_x = b_x ib, b_y = b_y ib,
                         b_width = jadd64 (b_width ib) deltaX,
                         b_height = jadd64 (b_height ib) deltaY\<rparr>
                    | rotate \<Rightarrow> ib);
                 minSize = N 5
             in if jlt (jabs (b_width newBounds)) minSize then obj
                else if jlt (jabs (b_height newBounds)) minSize then obj
                else if o_type obj = Text then
                  (let obj1 = (if \<not> truthy (o_originalSize obj)
                               then obj\<lparr>o_originalSize := o_size obj\<rparr> else obj);
                       heightScale = jdiv64 (jabs (b_height newBounds)) (b_height ib);
                       newSize = jmul64 (o_originalSize obj1) heightScale
                   in if jlt newSize (N 4) then obj1
                      else obj1\<lparr>o_x := b_x newBounds, o_y := b_y newBounds,
                                o_size := newSize\<rparr>)
                else
                  (let obj1 = (if \<not> truthy (o_originalWidth obj)
                               then obj\<lparr>o_originalWidth := o_width obj\<rparr> else obj);
                       obj2 = (if \<not> truthy (o_originalHeight obj1)
                               then obj1\<lparr>o_originalHeight := o_height obj1\<rparr> else obj1);
                       scaleX = jdiv64 (b_width newBounds) (b_width ib);
                       scaleY = jdiv64 (b_height newBounds) (b_height ib)
                   in obj2\<lparr>o_x := b_x newBounds, o_y := b_y newBounds,
                           o_width := jmul64 (o_originalWidth obj2) scaleX,
                           o_height := jmul64 (o_originalHeight obj2) scaleY\<rparr>)))"

text \<open>
  The three steps of a handle drag on the selected object, as the mouse listeners perform
  them. \<open>startResizing\<close> is the "Start resizing" block of mousedown (script.js 962-970):
  it records the baseline bounds and mouse position and stores \<open>initialRotation\<close> on the
  object. \<open>dragHandle\<close> is the mousemove call of \<open>applyResize\<close> (script.js 1083-1086).
  \<open>commitResize\<close> is the block of mouseup that runs when a handle was held
  (script.js 1244-1255).
\<close>

record transform =
  resizeHandle :: handle
  initialBounds :: bounds
  initialMouseX :: jsval
  initialMouseY :: jsval

definition startResizing ::
  "metrics \<Rightarrow> obj \<Rightarrow> handle \<Rightarrow> jsval \<Rightarrow> jsval \<Rightarrow> obj \<times> transform" where
  "startResizing measureText obj h startX startY =
     (obj\<lparr>o_initialRotation := jor (o_rotation obj) (N 0)\<rparr>,
      \<lparr>resizeHandle = h, initialBounds = getObjectBounds measureText obj,
       initialMouseX = startX, initialMouseY = startY\<rparr>)"

definition dragHandle :: "transform \<Rightarrow> obj \<Rightarrow> jsval \<Rightarrow> jsval \<Rightarrow> obj" where
  "dragHandle t obj mouseX mouseY =
     applyResize (Some (initialBounds t)) obj (resizeHandle t) mouseX mouseY
       (initialMouseX t) (initialMouseY t)"

definition commitResize :: "obj \<Rightarrow> obj" where
  "commitResize obj =
     (if o_type obj = Text then
        obj\<lparr>o_originalSize := o_size obj, o_initialRotation := Undefined\<rparr>
      else
        obj\<lparr>o_originalWidth := jabs (o_width obj), o_originalHeight := jabs (o_height obj),
            o_initialRotation := Undefined\<rparr>)"

text \<open>A whole handle drag: press at the first point, move to the second, release.\<close>

definition handleDrag ::
  "metrics \<Rightarrow> handle \<Rightarrow> jsval \<Rightarrow> jsval \<Rightarrow> jsval \<Rightarrow> jsval \<Rightarrow> obj \<Rightarrow> obj" where
  "handleDrag measureText h startX startY mouseX mouseY obj =
     (let (obj1, t) = startResizing measureText obj h startX startY
      in commitResize (dragHandle t obj1 mouseX mouseY))"

text \<open>
  The steps of a handle drag in binary64. The block of mouseup only copies and takes
  \<open>Math.abs\<close>, so \<open>commitResize\<close> serves as it is.
\<close>

definition startResizing64 ::
  "metrics \<Rightarrow> obj \<Rightarrow> handle \<Rightarrow> jsval \<Rightarrow> jsval \<Rightarrow> obj \<times> transform" where
  "startResizing64 measureText obj h startX startY =
     (obj\<lparr>o_initialRotation := jor (o_rotation obj) (N 0)\<rparr>,
      \<lparr>resizeHandle = h, initialBounds = getObjectBounds64 measureText obj,
       initialMouseX = startX, initialMouseY = startY\<rparr>)"

definition dragHandle64 :: "transform \<Rightarrow> obj \<Rightarrow> jsval \<Rightarrow> jsval \<Rightarrow> obj" where
  "dragHandle64 t obj mouseX mouseY =
     applyResize64 (Some (initialBounds t)) obj (resizeHandle t) mouseX mouseY
       (initialMouseX t) (initialMouseY t)"

definition handleDrag64 ::
  "metrics \<Rightarrow> handle \<Rightarrow> jsval \<Rightarrow> jsval \<Rightarrow> jsval \<Rightarrow> jsval \<Rightarrow> obj \<Rightarrow> obj" where
  "handleDrag64 measureText h startX startY mouseX mouseY obj =
     (let (obj1, t) = startResizing64 measureText obj h startX startY
      in commitResize (dragHandle64 t obj1 mouseX mouseY))"

section \<open>Editor state\<close>

text \<open>
  The module-level variables of script.js that the modelled functions read or write, as one
  record. Objects are JavaScript objects with identity: \<open>heap\<close> maps a reference to the
  object's current properties, and \<open>drawingStack\<close>, \<open>selectedObject\<close>,
  \<open>hoveredObject\<close>, \<open>currentTextObj\<close> and \<open>currentBrushStroke\<close> hold references
  (\<open>currentEraserStroke\<close> holds the \<open>isActive\<close> flag of its object). \<open>colorValue\<close> and
  \<open>lineWidthValue\<close> stand for \<open>colorPicker.value\<close> and
  \<open>parseInt(lineWidth.value)\<close>. A history snapshot is the structure that the JSON text
  denotes. An array is a list whose last element is the one \<open>push\<close> added.
\<close>

type_synonym snapshot = "obj list"

record editor =
  heap :: "nat \<Rightarrow> obj"
  nextRef :: nat
  drawingStack :: "nat list"
  undoStack :: "snapshot list"
  redoStack :: "snapshot list"
  numberCounter :: int
  activeTool :: tool
  currentShape :: tool
  isShiftPressed :: bool
  colorValue :: string
  lineWidthValue :: jsval
  selectedObject :: "nat option"
  hoveredObject :: "nat option"
  isDrawing :: bool
  isCropping :: bool
  isEditingText :: bool
  currentTextObj :: "nat option"
  textCursor :: nat
  currentEraserStroke :: "bool option"
  currentBrushStroke :: "nat option"
  startX :: jsval
  startY :: jsval

text \<open>The Document: the objects of the drawing stack, in z-order.\<close>

definition document :: "editor \<Rightarrow> obj list" where
  "document s = map (heap s) (drawingStack s)"

text \<open>An object literal with only \<open>type\<close> set.\<close>

definition blankObject :: "tool \<Rightarrow> obj" where
  "blankObject t =
     \<lparr>o_type = t, o_color = [], o_rotation = Undefined, o_x = Undefined, o_y = Undefined,
      o_width = Undefined, o_height = Undefined, o_lineWidth = Undefined,
      o_originalWidth = Undefined, o_originalHeight = Undefined, o_number = Undefined,
      o_radius = Undefined, o_text = None, o_size = Undefined, o_family = None,
      o_bold = None, o_italic = None, o_underline = None, o_originalSize = Undefined,
      o_points = None, o_initialRotation = Undefined, o_isAllSelected = None\<rparr>"

text \<open>The state when the script has run and an image has been loaded.\<close>

definition initialState :: editor where
  "initialState =
     \<lparr>heap = (\<lambda>r. blankObject Select), nextRef = 0, drawingStack = [], undoStack = [],
      redoStack = [], numberCounter = 1, activeTool = Select, currentShape = Rect,
      isShiftPressed = False, colorValue = ''#ff0000'', lineWidthValue = N 10,
      selectedObject = None, hoveredObject = None, isDrawing = False, isCropping = False,
      isEditingText = False, currentTextObj = None, textCursor = 0,
      currentEraserStroke = None, currentBrushStroke = None,
      startX = Undefined, startY = Undefined\<rparr>"

section \<open>Object creation\<close>

text \<open>
  \<open>createObject\<close> (script.js 1327-1368): the new object (\<open>None\<close> for \<open>null\<close>) and the
  value of \<open>numberCounter\<close> afterwards.
\<close>

definition createObject ::
  "editor \<Rightarrow> jsval \<Rightarrow> jsval \<Rightarrow> jsval \<Rightarrow> jsval \<Rightarrow> obj option \<times> int" where
  "createObject s x1 y1 x2 y2 =
     (let newObj0 = (blankObject (if activeTool s = Shape then currentShape s else activeTool s))
                      \<lparr>o_color := colorValue s, o_rotation := N 0\<rparr>;
          newObj = (if activeTool s = Check \<or> (activeTool s = Shape \<and> currentShape s = Check)
                    then newObj0\<lparr>o_color := ''#4caf50''\<rparr> else newObj0)
      in if activeTool s = Numbers then
           (Some (newObj\<lparr>o_x := x1, o_y := y1, o_number := N (of_int (numberCounter s)),
                         o_radius := lineWidthValue s\<rparr>),
            numberCounter s + 1)
         else if activeTool s = Eraser then (None, numberCounter s)
         else
           (let width0 = jsub x2 x1;
                height0 = jsub y2 y1;
                snap = (activeTool s = Arrow \<and>
                        (jlt (jabs width0) (N 10) \<or> jlt (jabs height0) (N 10)));
                directionX = (if jge width0 (N 0) then N 1 else N (- 1));
                directionY = (if jge height0 (N 0) then N 1 else N (- 1));
                width = (if snap then jmul (N 10) directionX else width0);
                height = (if snap then jmul (N 10) directionY else height0);
                newObj1 = newObj\<lparr>o_x := x1, o_y := y1, o_width := width, o_height := height,
                                 o_lineWidth := lineWidthValue s,
                                 o_originalWidth := jabs width, o_originalHeight := jabs height\<rparr>;
                adjust = (activeTool s \<noteq> Arrow \<and>
                          (activeTool s \<noteq> Shape \<or> currentShape s \<noteq> Arrow));
                newObj2 = (if adjust \<and> jlt width (N 0)
                           then newObj1\<lparr>o_x := x2, o_width := jmul (o_width newObj1) (N (- 1))\<rparr>
                           else newObj1);
                newObj3 = (if adjust \<and> jlt height (N 0)
                           then newObj2\<lparr>o_y := y2, o_height := jmul (o_height newObj2) (N (- 1))\<rparr>
                           else newObj2)
            in (Some newObj3, numberCounter s)))"

text \<open>
  The shift-key block that mousemove (script.js 1125-1145) and mouseup (script.js
  1216-1236) both contain, on the drag deltas \<open>drawWidth\<close> and \<open>drawHeight\<close>.
\<close>

definition shiftConstrain :: "editor \<Rightarrow> jsval \<Rightarrow> jsval \<Rightarrow> jsval \<times> jsval" where
  "shiftConstrain s drawWidth drawHeight =
     (let currentTool = (if activeTool s = Shape then currentShape s else activeTool s)
      in if isShiftPressed s then
           (if currentTool = Rect \<or> currentTool = Circle then
              (let size = jmax [jabs drawWidth, jabs drawHeight]
               in (if jge drawWidth (N 0) then size else jneg size,
                   if jge drawHeight (N 0) then size else jneg size))
            else (drawWidth, drawHeight))
         else
           (if currentTool = Check \<or> currentTool = Cross then
              (let size = jmin [jabs drawWidth, jabs drawHeight]
               in (if jge drawWidth (N 0) then size else jneg size,
                   if jge drawHeight (N 0) then size else jneg size))
            else (drawWidth, drawHeight)))"

text \<open>
  The preview object that mousemove hands to \<open>drawObject\<close> while a shape is being
  dragged (script.js 1076, 1119-1171); \<open>None\<close> when nothing is being drawn and for
  the tools that show no preview object.
\<close>

definition mousemovePreview :: "editor \<Rightarrow> jsval \<Rightarrow> jsval \<Rightarrow> obj option" where
  "mousemovePreview s mouseX mouseY =
     (if \<not> isDrawing s then None
      else if activeTool s \<noteq> Select \<and> activeTool s \<noteq> Numbers \<and> activeTool s \<noteq> Crop \<and>
         activeTool s \<noteq> Eraser \<and> activeTool s \<noteq> Brush \<and> activeTool s \<noteq> Text then
        (let (drawWidth, drawHeight) =
               shiftConstrain s (jsub mouseX (startX s)) (jsub mouseY (startY s))
         in if activeTool s = Blur then None
            else Some ((blankObject (if activeTool s = Shape then currentShape s else activeTool s))
                         \<lparr>o_x := startX s, o_y := startY s, o_width := drawWidth,
                          o_height := drawHeight, o_color := colorValue s,
                          o_lineWidth := lineWidthValue s\<rparr>))
      else None)"

text \<open>
  What mouseup creates (script.js 1177-1239): \<open>newObject\<close> (\<open>None\<close> for
  \<open>undefined\<close> and \<open>null\<close>) and the counter afterwards.
\<close>

definition mouseupNewObject :: "editor \<Rightarrow> jsval \<Rightarrow> jsval \<Rightarrow> obj option \<times> int" where
  "mouseupNewObject s endX endY =
     (let wasClick = (jlt (jabs (jsub endX (startX s))) (N 5) \<and>
                      jlt (jabs (jsub endY (startY s))) (N 5))
      in if \<not> isDrawing s then (None, numberCounter s)
         else if activeTool s = Crop \<and> isCropping s then (None, numberCounter s)
         else if activeTool s \<noteq> Select \<and> activeTool s \<noteq> Text then
           (if wasClick then
              (if activeTool s = Numbers then createObject s endX endY Undefined Undefined
               else if activeTool s \<in> {Rect, Circle, Arrow, Blur, Shape} then
                 (let size = lineWidthValue s
                  in createObject s (jsub (startX s) (jdiv size (N 2)))
                       (jsub (startY s) (jdiv size (N 2)))
                       (jadd (startX s) (jdiv size (N 2)))
                       (jadd (startY s) (jdiv size (N 2))))
               else if activeTool s \<in> {Check, Cross} \<or>
                       (activeTool s = Shape \<and> currentShape s \<in> {Check, Cross}) then
                 (let size = N 20
                  in createObject s (jsub (startX s) (jdiv size (N 2)))
                       (jsub (startY s) (jdiv size (N 2)))
                       (jadd (startX s) (jdiv size (N 2)))
                       (jadd (startY s) (jdiv size (N 2))))
               else (None, numberCounter s))
            else
              (let (drawWidth, drawHeight) =
                     shiftConstrain s (jsub endX (startX s)) (jsub endY (startY s))
               in createObject s (startX s) (startY s)
                    (jadd (startX s) drawWidth) (jadd (startY s) drawHeight)))
         else (None, numberCounter s))"

text \<open>
  \<open>createObject\<close>, the preview of mousemove and what mouseup creates, in binary64. The
  shift-key block only negates, compares and takes \<open>Math.abs\<close>, \<open>Math.max\<close> and
  \<open>Math.min\<close>, so \<open>shiftConstrain\<close> serves as it is.
\<close>

definition createObject64 ::
  "editor \<Rightarrow> jsval \<Rightarrow> jsval \<Rightarrow> jsval \<Rightarrow> jsval \<Rightarrow> obj option \<times> int" where
  "createObject64 s x1 y1 x2 y2 =
     (let newObj0 = (blankObject (if activeTool s = Shape then currentShape s else activeTool s))
                      \<lparr>o_color := colorValue s, o_rotation := N 0\<rparr>;
          newObj = (if activeTool s = Check \<or> (activeTool s = Shape \<and> currentShape s = Check)
                    then newObj0\<lparr>o_color := ''#4caf50''\<rparr> else newObj0)
      in if activeTool s = Numbers then
           (Some (newObj\<lparr>o_x := x1, o_y := y1, o_number := N (of_int (numberCounter s)),
                         o_radius := lineWidthValue s\<rparr>),
            numberCounter s + 1)
         else if activeTool s = Eraser then (None, numberCounter s)
         else
           (let width0 = jsub64 x2 x1;
                height0 = jsub64 y2 y1;
                snap = (activeTool s = Arrow \<and>
                        (jlt (jabs width0) (N 10) \<or> jlt (jabs height0) (N 10)));
                directionX = (if jge width0 (N 0) then N 1 else N (- 1));
                directionY = (if jge height0 (N 0) then N 1 else N (- 1));
                width = (if snap then jmul64 (N 10) directionX else width0);
                height = (if snap then jmul64 (N 10) directionY else height0);
                newObj1 = newObj\<lparr>o_x := x1, o_y := y1, o_width := width, o_height := height,
                                 o_lineWidth := lineWidthValue s,
                                 o_originalWidth := jabs width, o_originalHeight := jabs height\<rparr>;
                adjust = (activeTool s \<noteq> Arrow \<and>
                          (activeTool s \<noteq> Shape \<or> currentShape s \<noteq> Arrow));
                newObj2 = (if adjust \<and> jlt width (N 0)
                           then newObj1\<lparr>o_x := x2,
                                  o_width := jmul64 (o_width newObj1) (N (- 1))\<rparr>
                           else newObj1);
                newObj3 = (if adjust \<and> jlt height (N 0)
                           then newObj2\<lparr>o_y := y2,
                                  o_height := jmul64 (o_height newObj2) (N (- 1))\<rparr>
                           else newObj2)
            in (Some newObj3, numberCounter s)))"


definition mouseupNewObject64 :: "editor \<Rightarrow> jsval \<Rightarrow> jsval \<Rightarrow> obj option \<times> int" where
  "mouseupNewObject64 s endX endY =
     (let wasClick = (jlt (jabs (jsub64 endX (startX s))) (N 5) \<and>
                      jlt (jabs (jsub64 endY (startY s))) (N 5))
      in if \<not> isDrawing s then (None, numberCounter s)
         else if activeTool s = Crop \<and> isCropping s then (None, numberCounter s)
         else if activeTool s \<noteq> Select \<and> activeTool s \<noteq> Text then
           (if wasClick then
              (if activeTool s = Numbers then createObject64 s endX endY Undefined Undefined
               else if activeTool s \<in> {Rect, Circle, Arrow, Blur, Shape} then
                 (let size = lineWidthValue s
                  in createObject64 s (jsub64 (startX s) (jdiv64 size (N 2)))
                       (jsub64 (startY s) (jdiv64 size (N 2)))
                       (jadd64 (startX s) (jdiv64 size (N 2)))
                       (jadd64 (startY s) (jdiv64 size (N 2))))
               else if activeTool s \<in> {Check, Cross} \<or>
                       (activeTool s = Shape \<and> currentShape s \<in> {Check, Cross}) then
                 (let size = N 20
                  in createObject64 s (jsub64 (startX s) (jdiv64 size (N 2)))
                       (jsub64 (startY s) (jdiv64 size (N 2)))
                       (jadd64 (startX s) (jdiv64 size (N 2)))
                       (jadd64 (startY s) (jdiv64 size (N 2))))
               else (None, numberCounter s))
            else
              (let (drawWidth, drawHeight) =
                     shiftConstrain s (jsub64 endX (startX s)) (jsub64 endY (startY s))
               in createObject64 s (startX s) (startY s)
                    (jadd64 (startX s) drawWidth) (jadd64 (startY s) drawHeight)))
         else (None, numberCounter s))"

section \<open>History\<close>

text \<open>
  What \<open>JSON.stringify\<close> writes for a property value and \<open>JSON.parse\<close> reads back:
  a finite number and \<open>null\<close> as they are, \<open>null\<close> for NaN and the infinities; an
  undefined property is left out and is undefined again after parsing. Strings and
  booleans come back unchanged.
\<close>

fun jsonValue :: "jsval \<Rightarrow> jsval" where
  "jsonValue (Number (Fin r)) = Number (Fin r)"
| "jsonValue (Number n) = Null"
| "jsonValue Null = Null"
| "jsonValue Undefined = Undefined"

definition jsonPoint :: "point \<Rightarrow> point" where
  "jsonPoint p = \<lparr>p_x = jsonValue (p_x p), p_y = jsonValue (p_y p)\<rparr>"

definition jsonObject :: "obj \<Rightarrow> obj" where
  "jsonObject obj =
     \<lparr>o_type = o_type obj, o_color = o_color obj, o_rotation = jsonValue (o_rotation obj),
      o_x = jsonValue (o_x obj), o_y = jsonValue (o_y obj),
      o_width = jsonValue (o_width obj), o_height = jsonValue (o_height obj),
      o_lineWidth = jsonValue (o_lineWidth obj),
      o_originalWidth = jsonValue (o_originalWidth obj),
      o_originalHeight = jsonValue (o_originalHeight obj),
      o_number = jsonValue (o_number obj), o_radius = jsonValue (o_radius obj),
      o_text = o_text obj, o_size = jsonValue (o_size obj), o_family = o_family obj,
      o_bold = o_bold obj, o_italic = o_italic obj, o_underline = o_underline obj,
      o_originalSize = jsonValue (o_originalSize obj),
      o_points = map_option (map jsonPoint) (o_points obj),
      o_initialRotation = jsonValue (o_initialRotation obj),
      o_isAllSelected = o_isAllSelected obj\<rparr>"

definition JSON_stringify :: "obj list \<Rightarrow> snapshot" where
  "JSON_stringify objs = map jsonObject objs"

definition JSON_parse :: "snapshot \<Rightarrow> obj list" where
  "JSON_parse snap = snap"

text \<open>
  \<open>drawingStack = JSON.parse(...)\<close>: the parsed objects are new objects, so they get
  references that nothing else holds.
\<close>

definition assignDrawingStack :: "obj list \<Rightarrow> editor \<Rightarrow> editor" where
  "assignDrawingStack objs s =
     s\<lparr>heap := (\<lambda>r. if nextRef s \<le> r \<and> r < nextRef s + length objs
                     then objs ! (r - nextRef s) else heap s r),
       drawingStack := [nextRef s ..< nextRef s + length objs],
       nextRef := nextRef s + length objs\<rparr>"

text \<open>\<open>pushToUndoStack\<close>, \<open>undo\<close> and \<open>redo\<close> (script.js 108-112, 687-703).\<close>

definition pushToUndoStack :: "editor \<Rightarrow> editor" where
  "pushToUndoStack s =
     s\<lparr>undoStack := undoStack s @ [JSON_stringify (document s)], redoStack := []\<rparr>"

definition undo :: "editor \<Rightarrow> editor" where
  "undo s =
     (if undoStack s = [] then s
      else
        (let s1 = s\<lparr>redoStack := redoStack s @ [JSON_stringify (document s)]\<rparr>;
             s2 = assignDrawingStack (JSON_parse (last (undoStack s1)))
                    (s1\<lparr>undoStack := butlast (undoStack s1)\<rparr>)
         in s2\<lparr>selectedObject := None\<rparr>))"

definition redo :: "editor \<Rightarrow> editor" where
  "redo s =
     (if redoStack s = [] then s
      else
        (let s1 = s\<lparr>undoStack := undoStack s @ [JSON_stringify (document s)]\<rparr>;
             s2 = assignDrawingStack (JSON_parse (last (redoStack s1)))
                    (s1\<lparr>redoStack := butlast (redoStack s1)\<rparr>)
         in s2\<lparr>selectedObject := None\<rparr>))"

section \<open>Removing objects\<close>

text \<open>
  \<open>indexOf\<close> compares references and gives -1 when there is none; \<open>splice(start, 1)\<close>
  counts a negative start from the end of the array.
\<close>

fun indexOf :: "nat list \<Rightarrow> nat \<Rightarrow> int" where
  "indexOf [] r = - 1"
| "indexOf (a # as) r = (if a = r then 0 else (let i = indexOf as r in if i < 0 then - 1 else i + 1))"

definition splice1 :: "'a list \<Rightarrow> int \<Rightarrow> 'a list" where
  "splice1 xs start =
     (let len = int (length xs);
          from = (if start < 0 then max (len + start) 0 else min start len)
      in take (nat from) xs @ drop (nat from + 1) xs)"

text \<open>The Delete key in the document keydown listener (script.js 877-883).\<close>

definition keydownDelete :: "editor \<Rightarrow> editor" where
  "keydownDelete s =
     (case selectedObject s of
        None \<Rightarrow> s
      | Some sel \<Rightarrow>
          (let s1 = pushToUndoStack s
           in s1\<lparr>drawingStack := splice1 (drawingStack s1) (indexOf (drawingStack s1) sel),
                 selectedObject := None\<rparr>))"

text \<open>
  The eraser block that mousedown (script.js 1053-1060) and mousemove (script.js
  1111-1118) share: the topmost object at the point leaves the drawing stack.
\<close>

definition eraseAt :: "metrics \<Rightarrow> editor \<Rightarrow> jsval \<Rightarrow> jsval \<Rightarrow> editor" where
  "eraseAt measureText s x y =
     (case getObjectAt measureText (document s) x y of
        None \<Rightarrow> s
      | Some i \<Rightarrow>
          (let objectToRemove = drawingStack s ! i;
               index = indexOf (drawingStack s) objectToRemove
           in if index > - 1 then s\<lparr>drawingStack := splice1 (drawingStack s) index\<rparr> else s))"

text \<open>
  The end of text editing, \<open>applyText\<close> (script.js 1552-1581). \<open>trim\<close> removes white
  space and line terminators at both ends; among the characters of a \<open>string\<close>, whose
  codes are below 256, these are the space, the no-break space (code 160), and the
  codes 9 to 13. Reading \<open>text\<close> of \<open>null\<close>, or \<open>trim\<close> of a missing text, throws a
  TypeError.
\<close>

datatype error = TypeError

definition isSpace :: "char \<Rightarrow> bool" where
  "isSpace c = (c \<in> {CHR '' '', CHR 0xA0, CHR 0x09, CHR 0x0A, CHR 0x0B, CHR 0x0C, CHR 0x0D})"

definition trim :: "string \<Rightarrow> string" where
  "trim t = rev (dropWhile isSpace (rev (dropWhile isSpace t)))"

definition applyText :: "editor \<Rightarrow> error + editor" where
  "applyText s =
     (if isEditingText s then
        (case currentTextObj s of
           None \<Rightarrow> Inl TypeError
         | Some cur \<Rightarrow>
             (case o_text (heap s cur) of
                None \<Rightarrow> Inl TypeError
              | Some t \<Rightarrow>
                  (let s1 = s\<lparr>isEditingText := False\<rparr>;
                       s2 = (if trim t = [] then
                               (let index = indexOf (drawingStack s1) cur
                                in if index > - 1
                                   then s1\<lparr>drawingStack := splice1 (drawingStack s1) index\<rparr>
                                   else s1)
                             else s1)
                   in Inr (s2\<lparr>currentTextObj := None, textCursor := 0,
                               selectedObject := None\<rparr>))))
      else Inr s)"

text \<open>
  The state changes of \<open>setActiveTool\<close> for a tool of the toolbar (script.js 116-190), and
  the hover listener (script.js 1284-1323), which is the only code that sets
  \<open>hoveredObject\<close>.
\<close>

definition setActiveTool :: "tool \<Rightarrow> editor \<Rightarrow> editor" where
  "setActiveTool t s =
     (let s1 = (if activeTool s = Crop then s\<lparr>isCropping := False\<rparr> else s);
          s2 = s1\<lparr>activeTool := t, selectedObject := None\<rparr>;
          s3 = (if t = Check then s2\<lparr>colorValue := ''#4caf50''\<rparr> else s2);
          s4 = (if t = Cross then s3\<lparr>colorValue := ''#f44336''\<rparr> else s3);
          defaultSize = (if t \<in> {Rect, Circle, Shape, Check, Cross} then N 5
                         else if t = Numbers then N 20
                         else if t = Text then N 50
                         else if t = Blur then N 69
                         else N 10)
      in s4\<lparr>lineWidthValue := defaultSize\<rparr>)"

definition mousemoveHover :: "metrics \<Rightarrow> editor \<Rightarrow> jsval \<Rightarrow> jsval \<Rightarrow> editor" where
  "mousemoveHover measureText s mouseX mouseY =
     (if isDrawing s \<or> isEditingText s then s
      else if activeTool s = Select \<or> activeTool s = Text then
        (let objectUnderMouse =
               map_option (\<lambda>i. drawingStack s ! i) (getObjectAt measureText (document s) mouseX mouseY);
             newHoveredObject = (if selectedObject s \<noteq> None then None else objectUnderMouse)
         in if newHoveredObject \<noteq> hoveredObject s
            then s\<lparr>hoveredObject := newHoveredObject\<rparr> else s)
      else (if hoveredObject s \<noteq> None then s\<lparr>hoveredObject := None\<rparr> else s))"

section \<open>Mouse listeners of the drawing tools\<close>

text \<open>
  The three mouse listeners of the canvas as they run when the active tool is not
  \<open>select\<close>, \<open>crop\<close> or \<open>text\<close>: mousedown (script.js 934-941, 1046-1072), the
  drawing mousemove listener (script.js 1075-1173, whose preview is
  \<open>mousemovePreview\<close>) and mouseup (script.js 1176-1265). \<open>pushObject\<close> is
  \<open>drawingStack.push\<close> of a new object.
\<close>

definition pushObject :: "obj \<Rightarrow> editor \<Rightarrow> editor" where
  "pushObject obj s =
     s\<lparr>heap := (heap s)(nextRef s := obj), drawingStack := drawingStack s @ [nextRef s],
       nextRef := nextRef s + 1\<rparr>"

definition mousedownDraw :: "metrics \<Rightarrow> editor \<Rightarrow> jsval \<Rightarrow> jsval \<Rightarrow> editor" where
  "mousedownDraw measureText s x y =
     (let s1 = s\<lparr>startX := x, startY := y, isDrawing := True\<rparr>;
          s2 = pushToUndoStack (s1\<lparr>selectedObject := None\<rparr>)
      in if activeTool s2 = Eraser then
           (eraseAt measureText s2 (startX s2) (startY s2))\<lparr>currentEraserStroke := Some True\<rparr>
         else if activeTool s2 = Brush then
           (pushObject ((blankObject Brush)
                          \<lparr>o_points := Some [\<lparr>p_x = startX s2, p_y = startY s2\<rparr>],
                           o_color := colorValue s2, o_lineWidth := lineWidthValue s2\<rparr>) s2)
             \<lparr>currentBrushStroke := Some (nextRef s2)\<rparr>
         else s2)"

definition mousemoveDraw :: "metrics \<Rightarrow> editor \<Rightarrow> jsval \<Rightarrow> jsval \<Rightarrow> editor" where
  "mousemoveDraw measureText s mouseX mouseY =
     (if \<not> isDrawing s then s
      else
        (case (if activeTool s = Brush then currentBrushStroke s else None) of
           Some stroke \<Rightarrow>
             s\<lparr>heap := (heap s)(stroke := (heap s stroke)
                   \<lparr>o_points := Some (pointsOf (heap s stroke) @
                                        [\<lparr>p_x = mouseX, p_y = mouseY\<rparr>])\<rparr>)\<rparr>
         | None \<Rightarrow>
             if activeTool s = Eraser \<and> currentEraserStroke s = Some True
             then eraseAt measureText s mouseX mouseY
             else s))"

definition mouseupDraw :: "editor \<Rightarrow> jsval \<Rightarrow> jsval \<Rightarrow> editor" where
  "mouseupDraw s endX endY =
     (let (newObject, counter) = mouseupNewObject s endX endY;
          s1 = s\<lparr>numberCounter := counter\<rparr>;
          s2 = (case newObject of None \<Rightarrow> s1 | Some obj \<Rightarrow> pushObject obj s1)
      in s2\<lparr>isDrawing := False, currentEraserStroke := None, currentBrushStroke := None\<rparr>)"

section \<open>Concrete inputs\<close>

text \<open>
  A canvas font in which every character is 10 pixels wide, for evaluating the functions
  on concrete objects.
\<close>

definition fixedWidthFont :: metrics where
  "fixedWidthFont f t = 10 * real (length t)"

text \<open>
  A brush drag from (10, 10) to (40, 30): the brush tool is chosen, the mouse is pressed,
  moved and released. Mousedown and mousemove build \<open>brushStroke\<close>; mouseup then also
  calls \<open>createObject\<close>, because the brush tool is neither \<open>select\<close> nor \<open>text\<close>, and
  pushes what it returns: \<open>pointlessBrush\<close>, an object of type brush that has a box but
  no points.
\<close>

definition brushDragState :: editor where
  "brushDragState =
     mousemoveDraw fixedWidthFont
       (mousedownDraw fixedWidthFont (setActiveTool Brush initialState) (N 10) (N 10))
       (N 40) (N 30)"


definition brushStroke :: obj where
  "brushStroke =
     (blankObject Brush)\<lparr>o_color := ''#ff0000'', o_lineWidth := N 10,
       o_points := Some [\<lparr>p_x = N 10, p_y = N 10\<rparr>, \<lparr>p_x = N 40, p_y = N 30\<rparr>]\<rparr>"

definition pointlessBrush :: obj where
  "pointlessBrush =
     (blankObject Brush)\<lparr>o_color := ''#ff0000'', o_rotation := N 0, o_x := N 10, o_y := N 10,
       o_width := N 30, o_height := N 20, o_lineWidth := N 10,
       o_originalWidth := N 30, o_originalHeight := N 20\<rparr>"

text \<open>
  A rectangle drawn from (0, 0) to (100, 100) with the rect tool, after which the select
  tool is chosen: \<open>rectState\<close>, whose Document is \<open>rect100\<close> alone.
  \<open>selectedRectState\<close> is that editor after a click on the rectangle has selected it
  (the click pushes a snapshot).
\<close>

definition rect100 :: obj where
  "rect100 =
     (blankObject Rect)\<lparr>o_color := ''#ff0000'', o_rotation := N 0, o_x := N 0, o_y := N 0,
       o_width := N 100, o_height := N 100, o_lineWidth := N 5,
       o_originalWidth := N 100, o_originalHeight := N 100\<rparr>"

definition rectState :: editor where
  "rectState =
     setActiveTool Select
       (mouseupDraw (mousedownDraw fixedWidthFont (setActiveTool Rect initialState) (N 0) (N 0))
          (N 100) (N 100))"

definition selectedRectState :: editor where
  "selectedRectState =
     rectState\<lparr>selectedObject := Some 0, undoStack := undoStack rectState @ [[rect100]]\<rparr>"



definition helloText :: obj where
  "helloText =
     (blankObject Text)\<lparr>o_color := ''#ff0000'', o_rotation := N 0, o_x := N 0, o_y := N 0,
       o_text := Some ''Hello'', o_size := N 50, o_family := Some ''Arial'',
       o_bold := Some False, o_italic := Some False, o_underline := Some False,
       o_originalSize := N 50\<rparr>"



definition checkPicked :: editor where
  "checkPicked =
     setActiveTool Shape (initialState\<lparr>currentShape := Check, colorValue := ''#4caf50''\<rparr>)"

definition pickedCheckState :: editor where
  "pickedCheckState = mousedownDraw fixedWidthFont checkPicked (N 100) (N 100)"


definition checkToolState :: editor where
  "checkToolState =
     mousedownDraw fixedWidthFont (setActiveTool Check initialState) (N 100) (N 100)"

text \<open>
  A number marker and what a resize does to it. \<open>markerState\<close> is the numbers tool with
  the mouse pressed at (50, 50); releasing there creates \<open>marker1\<close>, and
  \<open>markerPlaced\<close> is the editor after that with the select tool chosen. Selecting the
  marker with a click, grabbing its south-east handle at (68, 68) and dragging it to
  (78, 78) turns the marker into \<open>resizedMarker\<close>: a marker has no width or height, so
  the scaled width and height and the re-baselined original width and height are NaN.
  \<open>resizedMarkerState\<close> is the editor after that gesture; the click and the grab each
  pushed a snapshot.
\<close>

definition marker1 :: obj where
  "marker1 =
     (blankObject Numbers)\<lparr>o_color := ''#ff0000'', o_rotation := N 0, o_x := N 50,
       o_y := N 50, o_number := N 1, o_radius := N 20\<rparr>"

definition resizedMarker :: obj where
  "resizedMarker =
     marker1\<lparr>o_x := N 30, o_y := N 30, o_width := Number NaN, o_height := Number NaN,
       o_originalWidth := Number NaN, o_originalHeight := Number NaN\<rparr>"

definition markerState :: editor where
  "markerState =
     mousedownDraw fixedWidthFont (setActiveTool Numbers initialState) (N 50) (N 50)"

definition markerPlaced :: editor where
  "markerPlaced = setActiveTool Select (mouseupDraw markerState (N 50) (N 50))"

definition resizedMarkerState :: editor where
  "resizedMarkerState =
     markerPlaced
       \<lparr>heap := (heap markerPlaced)
           (0 := handleDrag fixedWidthFont se_resize (N 68) (N 68) (N 78) (N 78)
                   (heap markerPlaced 0)),
        undoStack := undoStack markerPlaced @ [[marker1], [marker1]],
        selectedObject := Some 0\<rparr>"

text \<open>
  \<open>hoverThenErase\<close> is \<open>rectState\<close> after the mouse moved to (50, 50) over the
  rectangle, the eraser tool was chosen with its keyboard shortcut, and the mouse was
  pressed where it was. \<open>emptyTextState\<close> is an editor in which the text being edited
  has become empty.
\<close>

definition hoverThenErase :: editor where
  "hoverThenErase =
     mousedownDraw fixedWidthFont
       (setActiveTool Eraser (mousemoveHover fixedWidthFont rectState (N 50) (N 50)))
       (N 50) (N 50)"

definition emptyTextState :: editor where
  "emptyTextState =
     (setActiveTool Text initialState)
       \<lparr>heap := (heap initialState)(0 := helloText\<lparr>o_text := Some []\<rparr>), nextRef := 1,
        drawingStack := [0], undoStack := [[]], isEditingText := True,
        currentTextObj := Some 0\<rparr>"


definition circleDragState :: editor where
  "circleDragState =
     mousedownDraw fixedWidthFont (setActiveTool Circle initialState) (N 100) (N 100)"

definition circle100 :: obj where
  "circle100 =
     (blankObject Circle)\<lparr>o_color := ''#ff0000'', o_rotation := N 0, o_x := N 100,
       o_y := N 100, o_width := N 100, o_height := N 100, o_lineWidth := N 5,
       o_originalWidth := N 100, o_originalHeight := N 100\<rparr>"

definition rotatedCircle :: obj where
  "rotatedCircle = circle100\<lparr>o_rotation := N (3242591731706757 / 36028797018963968)\<rparr>"

definition quarterTurn :: real where
  "quarterTurn = 884279719003555 / 1125899906842624"

section \<open>The statements of the specification\<close>

text \<open>
  The unrotated base box as the specification words it: the stored box, the square of
  side twice the radius centred on a number marker, the measured extent of a text, and
  for a brush stroke the least and greatest point coordinates moved out by half the line
  width. A stored width or height is a number that is not NaN.
\<close>

fun storedNumber :: "jsval \<Rightarrow> bool" where
  "storedNumber (Number NaN) = False"
| "storedNumber (Number n) = True"
| "storedNumber v = False"

definition specBaseBox :: "metrics \<Rightarrow> obj \<Rightarrow> bounds" where
  "specBaseBox measureText obj =
     (case o_type obj of
        Numbers \<Rightarrow>
          \<lparr>b_x = jsub (o_x obj) (o_radius obj), b_y = jsub (o_y obj) (o_radius obj),
           b_width = jmul (N 2) (o_radius obj), b_height = jmul (N 2) (o_radius obj)\<rparr>
      | Text \<Rightarrow>
          \<lparr>b_x = o_x obj, b_y = o_y obj, b_width = N (measureText (getTextFont obj) (textOf obj)), b_height = o_size obj\<rparr>
      | Brush \<Rightarrow>
          (let half = jdiv (o_lineWidth obj) (N 2);
               left = jsub (jmin (map p_x (pointsOf obj))) half;
               right = jadd (jmax (map p_x (pointsOf obj))) half;
               top = jsub (jmin (map p_y (pointsOf obj))) half;
               bottom = jadd (jmax (map p_y (pointsOf obj))) half
           in \<lparr>b_x = left, b_y = top, b_width = jsub right left, b_height = jsub bottom top\<rparr>)
      | _ \<Rightarrow> \<lparr>b_x = o_x obj, b_y = o_y obj, b_width = o_width obj, b_height = o_height obj\<rparr>)"

















definition boxOf :: "obj option \<Rightarrow> (tool \<times> jsval \<times> jsval \<times> jsval \<times> jsval) option" where
  "boxOf r = map_option (\<lambda>obj. (o_type obj, o_x obj, o_y obj, o_width obj, o_height obj)) r"

text \<open>
  History. A property value is JSON-representable when it is not NaN and not an
  infinity; an object is when all its number properties and the coordinates of its
  points are.
\<close>

fun jsonRepresentable :: "jsval \<Rightarrow> bool" where
  "jsonRepresentable (Number (Fin r)) = True"
| "jsonRepresentable (Number n) = False"
| "jsonRepresentable v = True"

definition representableObject :: "obj \<Rightarrow> bool" where
  "representableObject obj =
     (jsonRepresentable (o_rotation obj) \<and> jsonRepresentable (o_x obj) \<and>
      jsonRepresentable (o_y obj) \<and> jsonRepresentable (o_width obj) \<and>
      jsonRepresentable (o_height obj) \<and> jsonRepresentable (o_lineWidth obj) \<and>
      jsonRepresentable (o_originalWidth obj) \<and> jsonRepresentable (o_originalHeight obj) \<and>
      jsonRepresentable (o_number obj) \<and> jsonRepresentable (o_radius obj) \<and>
      jsonRepresentable (o_size obj) \<and> jsonRepresentable (o_originalSize obj) \<and>
      jsonRepresentable (o_initialRotation obj) \<and>
      list_all (\<lambda>p. jsonRepresentable (p_x p) \<and> jsonRepresentable (p_y p)) (pointsOf obj))"

text \<open>
  References. A reference dangles when it points at an object that is not on the drawing
  stack. A gesture with a drawing tool is a press, any number of moves and a release;
  with the eraser tool active it is an eraser click or drag.
\<close>

definition dangling :: "editor \<Rightarrow> nat option \<Rightarrow> bool" where
  "dangling s r = (case r of None \<Rightarrow> False | Some a \<Rightarrow> a \<notin> set (drawingStack s))"

fun drawMoves :: "metrics \<Rightarrow> editor \<Rightarrow> (jsval \<times> jsval) list \<Rightarrow> editor" where
  "drawMoves measureText s [] = s"
| "drawMoves measureText s ((mouseX, mouseY) # moves) =
     drawMoves measureText (mousemoveDraw measureText s mouseX mouseY) moves"

definition drawGesture ::
  "metrics \<Rightarrow> editor \<Rightarrow> jsval \<Rightarrow> jsval \<Rightarrow> (jsval \<times> jsval) list \<Rightarrow> jsval \<Rightarrow> jsval \<Rightarrow> editor"
  where
  "drawGesture measureText s x y moves endX endY =
     mouseupDraw (drawMoves measureText (mousedownDraw measureText s x y) moves) endX endY"


definition dragAngle64 ::
  "metrics \<Rightarrow> obj \<Rightarrow> jsval \<Rightarrow> jsval \<Rightarrow> jsval \<Rightarrow> jsval \<Rightarrow> jsval" where
  "dragAngle64 measureText obj sx sy mouseX mouseY =
     (let b = getObjectBounds64 measureText obj;
          centerX = jadd64 (b_x b) (jdiv64 (b_width b) (N 2));
          centerY = jadd64 (b_y b) (jdiv64 (b_height b) (N 2))
      in jsub64 (jatan2_64 (jsub64 mouseY centerY) (jsub64 mouseX centerX))
                (jatan2_64 (jsub64 sy centerY) (jsub64 sx centerX)))"

text \<open>
  The partial sums of the series of \<open>arctan\<close>, for the binary64 values of \<open>pi / 4\<close> and
  \<open>pi / 2\<close>.
\<close>

definition arctanSum :: "nat \<Rightarrow> real \<Rightarrow> real" where
  "arctanSum n x = (\<Sum>i<n. (- 1) ^ i * (1 / real (i * 2 + 1) * x ^ (i * 2 + 1)))"

section \<open>Arithmetic lemmas\<close>

lemmas js_arith_defs =
  jor_def jadd_def jsub_def jmul_def jdiv_def jneg_def jabs_def jsqrt_def jcos_def jsin_def
  jatan2_def jlt_def jle_def jgt_def jge_def jmin_def jmax_def nsub_def minList_def maxList_def

lemmas state_defs =
  mousedownDraw_def mousemoveDraw_def mouseupDraw_def mouseupNewObject_def createObject_def
  shiftConstrain_def pushObject_def pushToUndoStack_def setActiveTool_def initialState_def
  eraseAt_def document_def JSON_stringify_def blankObject_def pointsOf_def Let_def

lemma jor_stored: "storedNumber v \<Longrightarrow> jor v (N 0) = v"
  by (cases v rule: storedNumber.cases) (auto simp: jor_def)

lemma nmul_comm: "nmul a b = nmul b a"
  by (cases a; cases b) (auto simp: mult.commute)

section \<open>Bounds of an unrotated object\<close>

lemma mouseup_brush_drag:
  "mouseupNewObject brushDragState (N 40) (N 30) = (Some pointlessBrush, 1)"
  by (simp add: brushDragState_def pointlessBrush_def state_defs js_arith_defs)


text \<open>
  Claim C2, as stated, fails. For an object of type brush that has no points, such as the
  one every brush drag leaves on the drawing stack, \<open>getObjectBounds\<close> takes the other
  branch of its brush case: the square of side \<open>lineWidth\<close> around \<open>(x, y)\<close>, here
  (5, 5, 10, 10), and not the box over the points.
\<close>

theorem getObjectBounds_pointless_brush:
  "o_type pointlessBrush = Brush \<and> o_rotation pointlessBrush = N 0 \<and>
   getObjectBounds fixedWidthFont pointlessBrush
     = \<lparr>b_x = N 5, b_y = N 5, b_width = N 10, b_height = N 10\<rparr> \<and>
   getObjectBounds fixedWidthFont pointlessBrush \<noteq> specBaseBox fixedWidthFont pointlessBrush"
  by (simp add: pointlessBrush_def blankObject_def getObjectBounds_def pointsBounds_def
      specBaseBox_def pointsOf_def js_arith_defs Let_def)

text \<open>
  Claim C2, amended: for every object whose rotation is 0 or absent, \<open>getObjectBounds\<close>
  returns exactly the unrotated base box of its kind, provided a brush stroke has at least
  one point and the stored width and height of a box kind are numbers (the code reads a
  missing, null or NaN width or height as 0).
\<close>

theorem getObjectBounds_unrotated:
  assumes "o_rotation obj = N 0 \<or> o_rotation obj = Undefined"
    and "o_type obj \<noteq> Eraser"
    and "o_type obj = Brush \<longrightarrow> pointsOf obj \<noteq> []"
    and "o_type obj \<notin> {Numbers, Text, Brush} \<longrightarrow>
           storedNumber (o_width obj) \<and> storedNumber (o_height obj)"
  shows "getObjectBounds measureText obj = specBaseBox measureText obj"
proof -
  have rot: "truthy (o_rotation obj) = False"
    using assms(1) by auto
  show ?thesis
  proof (cases "o_type obj")
    case Brush
    then obtain p ps where "o_points obj = Some (p # ps)"
      using assms(3) by (cases "o_points obj") (auto simp: pointsOf_def neq_Nil_conv)
    then show ?thesis using Brush
      by (simp add: rot getObjectBounds_def specBaseBox_def pointsBounds_def pointsOf_def Let_def)
  next
    case Numbers
    then show ?thesis
      by (simp add: rot getObjectBounds_def specBaseBox_def jmul_def nmul_comm)
  qed (use assms(2,4) in \<open>simp_all add: rot getObjectBounds_def specBaseBox_def jor_stored\<close>)
qed

theorem getObjectBounds_unrotated_witness:
  "(o_rotation rect100 = N 0 \<or> o_rotation rect100 = Undefined) \<and>
   o_type rect100 \<noteq> Eraser \<and>
   storedNumber (o_width rect100) \<and> storedNumber (o_height rect100) \<and>
   getObjectBounds fixedWidthFont rect100
     = \<lparr>b_x = N 0, b_y = N 0, b_width = N 100, b_height = N 100\<rparr> \<and>
   (o_rotation brushStroke = N 0 \<or> o_rotation brushStroke = Undefined) \<and>
   o_type brushStroke = Brush \<and> pointsOf brushStroke \<noteq> [] \<and>
   getObjectBounds fixedWidthFont brushStroke
     = \<lparr>b_x = N 5, b_y = N 5, b_width = N 40, b_height = N 30\<rparr>"
  using getObjectBounds_unrotated [of rect100 fixedWidthFont]
    getObjectBounds_unrotated [of brushStroke fixedWidthFont]
  by (simp add: rect100_def brushStroke_def blankObject_def specBaseBox_def pointsOf_def
      js_arith_defs Let_def)

section \<open>Hit testing\<close>









section \<open>Resizing\<close>

text \<open>
  Claim C4: a Rect at (0, 0) of width and height 100, unrotated, whose cached original
  width and height are 100, has the baseline bounds (0, 0, 100, 100). Dragging the
  se-resize handle by (+50, +20) from any grab point gives width 150 and height 120 and
  leaves x and y as they were; dragging the nw-resize handle by (+10, +10) gives
  x = 10, y = 10, width 90, height 90.
\<close>

theorem applyResize_rect_corners:
  assumes "o_type obj = Rect" "o_x obj = N 0" "o_y obj = N 0"
    "o_width obj = N 100" "o_height obj = N 100"
    "o_rotation obj = N 0 \<or> o_rotation obj = Undefined"
    "o_originalWidth obj = N 100" "o_originalHeight obj = N 100"
  shows "getObjectBounds measureText obj
           = \<lparr>b_x = N 0, b_y = N 0, b_width = N 100, b_height = N 100\<rparr> \<and>
    (let r = applyResize (Some (getObjectBounds measureText obj)) obj se_resize
               (N (mx + 50)) (N (my + 20)) (N mx) (N my)
     in o_width r = N 150 \<and> o_height r = N 120 \<and> o_x r = o_x obj \<and> o_y r = o_y obj) \<and>
    (let r = applyResize (Some (getObjectBounds measureText obj)) obj nw_resize
               (N (mx + 10)) (N (my + 10)) (N mx) (N my)
     in o_x r = N 10 \<and> o_y r = N 10 \<and> o_width r = N 90 \<and> o_height r = N 90)"
proof -
  have rot: "truthy (o_rotation obj) = False"
    using assms(6) by auto
  have b: "getObjectBounds measureText obj
             = \<lparr>b_x = N 0, b_y = N 0, b_width = N 100, b_height = N 100\<rparr>"
    using assms by (simp add: getObjectBounds_def rot jor_def)
  show ?thesis
    unfolding b using assms(1,2,3,7,8)
    by (simp add: applyResize_def js_arith_defs Let_def)
qed

theorem applyResize_rect_corners_witness:
  "o_type rect100 = Rect \<and> o_x rect100 = N 0 \<and> o_y rect100 = N 0 \<and>
   o_width rect100 = N 100 \<and> o_height rect100 = N 100 \<and>
   (o_rotation rect100 = N 0 \<or> o_rotation rect100 = Undefined) \<and>
   o_originalWidth rect100 = N 100 \<and> o_originalHeight rect100 = N 100 \<and>
   getObjectBounds fixedWidthFont rect100
     = \<lparr>b_x = N 0, b_y = N 0, b_width = N 100, b_height = N 100\<rparr> \<and>
   (let r = applyResize (Some (getObjectBounds fixedWidthFont rect100)) rect100 se_resize
              (N (98 + 50)) (N (98 + 20)) (N 98) (N 98)
    in o_width r = N 150 \<and> o_height r = N 120 \<and> o_x r = o_x rect100 \<and> o_y r = o_y rect100) \<and>
   (let r = applyResize (Some (getObjectBounds fixedWidthFont rect100)) rect100 nw_resize
              (N (98 + 10)) (N (98 + 10)) (N 98) (N 98)
    in o_x r = N 10 \<and> o_y r = N 10 \<and> o_width r = N 90 \<and> o_height r = N 90)"
proof -
  have hyps: "o_type rect100 = Rect" "o_x rect100 = N 0" "o_y rect100 = N 0"
    "o_width rect100 = N 100" "o_height rect100 = N 100"
    "o_rotation rect100 = N 0 \<or> o_rotation rect100 = Undefined"
    "o_originalWidth rect100 = N 100" "o_originalHeight rect100 = N 100"
    by (simp_all add: rect100_def blankObject_def)
  from applyResize_rect_corners [OF hyps, of fixedWidthFont 98 98] hyps show ?thesis
    by blast
qed



section \<open>Binary64 rounding\<close>

text \<open>
  Facts about \<open>round64\<close>: its value on a real of a known binade, its symmetry, that
  rounding a binary64 number gives it back, and the binary64 numbers nearest to \<open>pi / 4\<close>
  and \<open>pi / 2\<close>, from Machin's formula and the alternating series of \<open>arctan\<close>.
\<close>

lemma rne_bounds: "x - 1 < of_int (rne x)" "of_int (rne x) \<le> x + 1"
  unfolding rne_def Let_def by (auto; linarith)+

lemma rne_abs: "\<bar>of_int (rne x) :: real\<bar> \<le> \<bar>x\<bar> + 1"
  using rne_bounds [of x] by linarith

lemma round64_binade:
  assumes "2 ^ 52 \<le> \<bar>x\<bar> * 2 ^ n" "\<bar>x\<bar> * 2 ^ n < 2 ^ 53" "n \<le> 1074"
  shows "round64 x = Fin (of_int (rne (x * 2 ^ n)) / 2 ^ n)"
proof -
  have x0: "x \<noteq> 0" using assms(1) by auto
  have pos: "0 < \<bar>x\<bar>" using x0 by simp
  have "2 powr (52 - real n) \<le> \<bar>x\<bar>"
    using assms(1) by (simp add: powr_diff powr_realpow field_simps)
  moreover have "\<bar>x\<bar> < 2 powr (53 - real n)"
    using assms(2) by (simp add: powr_diff powr_realpow field_simps)
  ultimately have fl: "\<lfloor>log 2 \<bar>x\<bar>\<rfloor> = 52 - int n"
    using pos floor_log_eq_powr_iff [of "\<bar>x\<bar>" 2 "52 - int n"] by (simp add: algebra_simps)
  have e: "max \<lfloor>log 2 \<bar>x\<bar>\<rfloor> (- 1022) = 52 - int n"
    using fl assms(3) by simp
  have q: "(2::real) powr (of_int (52 - int n) - 52) = 1 / 2 ^ n"
    by (simp add: powr_minus powr_realpow field_simps)
  have "\<bar>of_int (rne (x * 2 ^ n)) :: real\<bar> \<le> \<bar>x * 2 ^ n\<bar> + 1"
    by (rule rne_abs)
  also have "\<dots> < 2 ^ 53 + 1" using assms(2) by (simp add: abs_mult)
  finally have b: "\<bar>of_int (rne (x * 2 ^ n)) :: real\<bar> < 2 ^ 53 + 1" .
  have "(1::real) \<le> 2 ^ n" by simp
  then have "\<bar>of_int (rne (x * 2 ^ n)) :: real\<bar> * 1 \<le> \<bar>of_int (rne (x * 2 ^ n))\<bar> * 2 ^ n"
    by (intro mult_left_mono) simp_all
  then have "\<bar>of_int (rne (x * 2 ^ n)) / 2 ^ n :: real\<bar> \<le> \<bar>of_int (rne (x * 2 ^ n))\<bar>"
    by (simp add: field_simps)
  also have "\<dots> < 2 ^ 1024" using b by simp
  finally have ov: "\<not> 2 ^ 1024 \<le> \<bar>of_int (rne (x * 2 ^ n)) / 2 ^ n :: real\<bar>" by simp
  show ?thesis
    unfolding round64_def Let_def e q using x0 ov by simp
qed

lemma rne_of_int [simp]: "rne (of_int m) = m"
  by (simp add: rne_def)

lemma rne_minus: "rne (- x) = - rne x"
proof (cases "x = of_int \<lfloor>x\<rfloor>")
  case True
  then obtain m where "x = of_int m" ..
  then show ?thesis using rne_of_int [of "- m"] by simp
next
  case False
  define f where "f = \<lfloor>x\<rfloor>"
  define d where "d = x - of_int f"
  have c: "\<lfloor>- x\<rfloor> = - f - 1"
    using False by (simp add: floor_minus ceiling_altdef f_def)
  have d': "- x - of_int (- f - 1) = 1 - d"
    by (simp add: d_def)
  have e: "even (- f - 1) = odd f" by simp
  have l: "rne (- x) = (if 1 - d < 1 / 2 then - f - 1 else if 1 / 2 < 1 - d then - f
                        else if odd f then - f - 1 else - f)"
    unfolding rne_def Let_def c d' e by simp
  have r: "rne x = (if d < 1 / 2 then f else if 1 / 2 < d then f + 1
                    else if even f then f else f + 1)"
    unfolding rne_def Let_def f_def [symmetric] d_def [symmetric] by simp
  consider "d < 1 / 2" | "1 / 2 < d" | "d = 1 / 2" by linarith
  then show ?thesis
  proof cases
    case 1 then show ?thesis unfolding l r by simp
  next
    case 2 then show ?thesis unfolding l r by simp
  next
    case 3 then show ?thesis unfolding l r by simp
  qed
qed

lemma round64_minus: "round64 (- x) = nneg (round64 x)"
  by (simp add: round64_def Let_def rne_minus)

lemma rne_ge_floor: "\<lfloor>x\<rfloor> \<le> rne x"
  by (simp add: rne_def Let_def)

lemma rne_mono_int: "of_int m \<le> x \<Longrightarrow> m \<le> rne x"
  using rne_ge_floor [of x] le_floor_iff [of m x] by linarith

lemma rne_le_int: "x \<le> of_int m \<Longrightarrow> rne x \<le> m"
  using rne_mono_int [of "- m" "- x"] by (simp add: rne_minus)

lemma rne_le_pow: "x \<le> 2 ^ k \<Longrightarrow> rne x \<le> 2 ^ k"
  using rne_le_int [of x "2 ^ k"] by simp

lemma rne_ge_pow: "2 ^ k \<le> x \<Longrightarrow> 2 ^ k \<le> rne x"
  using rne_mono_int [of "2 ^ k" x] by simp

lemma rne_ge_mpow: "- (2 ^ k) \<le> x \<Longrightarrow> - (2 ^ k) \<le> rne x"
  using rne_mono_int [of "- (2 ^ k)" x] by simp

lemma rne_le_mpow: "x \<le> - (2 ^ k) \<Longrightarrow> rne x \<le> - (2 ^ k)"
  using rne_le_int [of x "- (2 ^ k)"] by simp

lemma round64_idem:
  assumes "round64 x = Fin y"
  shows "round64 y = Fin y"
proof (cases "x = 0")
  case True
  then show ?thesis using assms by (simp add: round64_def)
next
  case x0: False
  define e where "e = max \<lfloor>log 2 \<bar>x\<bar>\<rfloor> (- 1022)"
  define q :: real where "q = 2 powr (of_int e - 52)"
  define m where "m = rne (x / q)"
  have q0: "0 < q" by (simp add: q_def)
  have y: "y = of_int m * q" and fin: "\<not> 2 ^ 1024 \<le> \<bar>y\<bar>"
    using assms x0 unfolding round64_def Let_def e_def [symmetric] q_def [symmetric]
      m_def [symmetric]
    by (auto split: if_splits)
  have e_lo: "- 1022 \<le> e" by (simp add: e_def)
  have "log 2 \<bar>x\<bar> < of_int \<lfloor>log 2 \<bar>x\<bar>\<rfloor> + 1" by linarith
  also have "\<dots> \<le> of_int e + 1" by (simp add: e_def)
  finally have "\<bar>x\<bar> < 2 powr (of_int e + 1)"
    using x0 by (simp add: log_less_iff)
  also have "\<dots> = 2 ^ 53 * q"
    by (simp add: q_def powr_diff powr_add)
  finally have xq: "\<bar>x / q\<bar> < 2 ^ 53"
    using q0 by (simp add: abs_mult field_simps)
  from xq have hi: "x / q \<le> 2 ^ 53" and lo: "- (2 ^ 53) \<le> x / q"
    by linarith+
  have m_hi: "m \<le> 2 ^ 53" and m_lo: "- (2 ^ 53) \<le> m"
    unfolding m_def using rne_le_pow [OF hi] rne_ge_mpow [OF lo] by simp_all
  show ?thesis
  proof (cases "m = 0")
    case True
    then show ?thesis by (simp add: y round64_def)
  next
    case m0: False
    have y0: "y \<noteq> 0" using m0 q0 by (simp add: y)
    have absy: "\<bar>y\<bar> = of_int \<bar>m\<bar> * q" using q0 by (simp add: y abs_mult)
    show ?thesis
    proof (cases "\<bar>m\<bar> = 2 ^ 53")
      case True
      then have "\<bar>y\<bar> = 2 powr (of_int e + 1)"
        by (simp add: absy q_def powr_diff powr_add)
      then have "log 2 \<bar>y\<bar> = of_int (e + 1)" by simp
      then have "\<lfloor>log 2 \<bar>y\<bar>\<rfloor> = e + 1" by (metis floor_of_int)
      then have ey: "max \<lfloor>log 2 \<bar>y\<bar>\<rfloor> (- 1022) = e + 1" using e_lo by simp
      have q': "2 powr (of_int (e + 1) - 52) = 2 * q"
        by (simp add: q_def powr_diff powr_add)
      have "even m" using True by (metis even_abs_add_iff even_add even_numeral even_power zero_less_numeral)
      then obtain k where k: "m = 2 * k" by (elim evenE)
      have "y / (2 * q) = of_int k" using q0 by (simp add: y k)
      then show ?thesis
        unfolding round64_def Let_def ey q' using y0 fin q0 by (simp add: y k)
    next
      case False
      then have mlt: "\<bar>m\<bar> < 2 ^ 53" using m_hi m_lo by linarith
      then have "of_int \<bar>m\<bar> < (2 ^ 53 :: real)"
        by (metis of_int_less_iff of_int_numeral of_int_power)
      then have "\<bar>y\<bar> < 2 ^ 53 * q" using q0 by (simp add: absy)
      also have "\<dots> = 2 powr (of_int e + 1)"
        by (simp add: q_def powr_diff powr_add)
      finally have "log 2 \<bar>y\<bar> < of_int e + 1"
        using y0 by (simp add: log_less_iff)
      then have up: "\<lfloor>log 2 \<bar>y\<bar>\<rfloor> \<le> e" by linarith
      have lo: "e \<le> \<lfloor>log 2 \<bar>y\<bar>\<rfloor>" if "e \<noteq> - 1022"
      proof -
        from that have el: "e = \<lfloor>log 2 \<bar>x\<bar>\<rfloor>" by (simp add: e_def max_def split: if_splits)
        then have "of_int e \<le> log 2 \<bar>x\<bar>" by simp
        then have "2 powr of_int e \<le> \<bar>x\<bar>" using x0 by (simp add: le_log_iff)
        moreover have "2 powr of_int e = 2 ^ 52 * q" by (simp add: q_def powr_diff)
        ultimately have "2 ^ 52 \<le> \<bar>x / q\<bar>" using q0 by (simp add: abs_mult field_simps)
        then consider "2 ^ 52 \<le> x / q" | "x / q \<le> - (2 ^ 52)" by linarith
        then have "2 ^ 52 \<le> \<bar>m\<bar>"
        proof cases
          case 1
          then have "2 ^ 52 \<le> m" unfolding m_def by (rule rne_ge_pow)
          then show ?thesis by linarith
        next
          case 2
          then have "m \<le> - (2 ^ 52)" unfolding m_def by (rule rne_le_mpow)
          then show ?thesis by linarith
        qed
        then have "(2 ^ 52 :: real) \<le> of_int \<bar>m\<bar>"
          by (metis of_int_le_iff of_int_numeral of_int_power)
        then have "2 ^ 52 * q \<le> \<bar>y\<bar>" using q0 by (simp add: absy)
        also have "2 ^ 52 * q = 2 powr of_int e" by (simp add: q_def powr_diff)
        finally have "of_int e \<le> log 2 \<bar>y\<bar>" using y0 by (simp add: le_log_iff)
        then show ?thesis by (simp add: le_floor_iff)
      qed
      have ey: "max \<lfloor>log 2 \<bar>y\<bar>\<rfloor> (- 1022) = e"
        using up lo e_lo by (cases "e = - 1022") auto
      have "y / q = of_int m" using q0 by (simp add: y)
      then show ?thesis
        unfolding round64_def Let_def ey q_def [symmetric] using y0 fin by (simp add: y)
    qed
  qed
qed

lemma rne_near:
  assumes "\<bar>x - of_int M\<bar> < 1 / 2"
  shows "rne x = M"
proof (cases "of_int M \<le> x")
  case True
  then have "\<lfloor>x\<rfloor> = M" using assms by linarith
  then show ?thesis using assms True by (simp add: rne_def Let_def)
next
  case False
  then have "\<lfloor>x\<rfloor> = M - 1" using assms by linarith
  then show ?thesis using assms False by (simp add: rne_def Let_def)
qed

lemma round64_between:
  assumes "lo \<le> x" "x \<le> hi"
    and "2 ^ 52 \<le> lo * 2 ^ n" "hi * 2 ^ n < 2 ^ 53"
    and "of_int M - 1 / 2 < lo * 2 ^ n" "hi * 2 ^ n < of_int M + 1 / 2"
    and "n \<le> 1074"
  shows "round64 x = Fin (of_int M / 2 ^ n)"
proof -
  have l: "lo * 2 ^ n \<le> x * 2 ^ n" and h: "x * 2 ^ n \<le> hi * 2 ^ n"
    using assms(1,2) by simp_all
  have "(0::real) < 2 ^ 52" by simp
  with l assms(3) have x0: "0 < x * 2 ^ n" by linarith
  then have ax: "\<bar>x\<bar> * 2 ^ n = x * 2 ^ n" by (simp add: zero_less_mult_iff)
  have "\<bar>x * 2 ^ n - of_int M\<bar> < 1 / 2" using l h assms(5,6) by linarith
  then have "rne (x * 2 ^ n) = M" by (rule rne_near)
  moreover have "2 ^ 52 \<le> \<bar>x\<bar> * 2 ^ n" "\<bar>x\<bar> * 2 ^ n < 2 ^ 53"
    unfolding ax using l h assms(3,4) by linarith+
  ultimately show ?thesis using round64_binade [of x n] assms(7) by simp
qed

lemma sum_lessThan_numeral:
  "(\<Sum>m<numeral k. f m) = (\<Sum>m<pred_numeral k. f m) + f (pred_numeral k)"
  by (simp add: numeral_eq_Suc)

lemma arctan_between:
  assumes "0 < x" "x \<le> 1"
  shows "arctanSum (2 * n) x \<le> arctan x" "arctan x \<le> arctanSum (2 * n + 1) x"
proof -
  have a: "\<bar>x\<bar> \<le> 1" using assms by simp
  have "0 < 1 / real (0 * 2 + 1) * x ^ (0 * 2 + 1)" using assms by simp
  with summable_Leibniz(2) [OF zeroseq_arctan_series [OF a] monoseq_arctan_series [OF a]]
  have "arctan x \<in> {arctanSum (2 * n) x .. arctanSum (2 * n + 1) x}"
    unfolding arctanSum_def arctan_series [OF a] by blast
  then show "arctanSum (2 * n) x \<le> arctan x" "arctan x \<le> arctanSum (2 * n + 1) x"
    by simp_all
qed

lemma arctanSum_values:
  "arctanSum 14 (1 / 5) = 295294730178639298589974654 / 1495954267680644989013671875"
  "arctanSum 15 (1 / 5) = 214088679379513491477932407733 / 1084566844068467617034912109375"
  "arctanSum 4 (1 / 239) = 19569249503065996 / 4677077924340368295"
  "arctanSum 5 (1 / 239) = 3353445302593898272583 / 801478104348738532136085"
  by (simp_all add: arctanSum_def sum_lessThan_numeral power_divide)

lemma pi_quarter_bounds:
  "4 * (295294730178639298589974654 / 1495954267680644989013671875)
     - 3353445302593898272583 / 801478104348738532136085 \<le> pi / 4"
  "pi / 4 \<le> 4 * (214088679379513491477932407733 / 1084566844068467617034912109375)
     - 19569249503065996 / 4677077924340368295"
  using arctan_between [of "1 / 5" 7] arctan_between [of "1 / 239" 2]
  unfolding machin by (simp_all add: arctanSum_values)

lemma round64_pi_quarter: "round64 (pi / 4) = Fin (884279719003555 / 1125899906842624)"
  using round64_between [OF pi_quarter_bounds, of 53 7074237752028440] by simp

lemma round64_pi_half: "round64 (pi / 2) = Fin (884279719003555 / 562949953421312)"
proof -
  have "2 * (4 * (295294730178639298589974654 / 1495954267680644989013671875)
     - 3353445302593898272583 / 801478104348738532136085) \<le> pi / 2"
   "pi / 2 \<le> 2 * (4 * (214088679379513491477932407733 / 1084566844068467617034912109375)
     - 19569249503065996 / 4677077924340368295)"
    using pi_quarter_bounds by simp_all
  from round64_between [OF this, of 52 7074237752028440] show ?thesis by simp
qed

lemma round64_zero [simp]: "round64 0 = Fin 0"
  by (simp add: round64_def)

lemmas round64_binades =
  round64_binade [where n = 40] round64_binade [where n = 41] round64_binade [where n = 42]
  round64_binade [where n = 43] round64_binade [where n = 44] round64_binade [where n = 45]
  round64_binade [where n = 46] round64_binade [where n = 47] round64_binade [where n = 48]
  round64_binade [where n = 49] round64_binade [where n = 50] round64_binade [where n = 51]
  round64_binade [where n = 52] round64_binade [where n = 53] round64_binade [where n = 54]
  round64_binade [where n = 55] round64_binade [where n = 56] round64_binade [where n = 57]
  round64_binade [where n = 58] round64_binade [where n = 59] round64_binade [where n = 60]

lemmas js64_defs = jadd64_def jsub64_def jmul64_def jdiv64_def jatan2_64_def

lemma fround_idem [simp]: "fround (fround n) = fround n"
proof (cases n)
  case (Fin a)
  then show ?thesis
    by (cases "round64 a") (simp_all add: round64_idem)
qed simp_all


lemma fround_Fin: "fround n = Fin a \<Longrightarrow> round64 a = Fin a"
  by (cases n) (simp_all add: round64_idem)




lemma round64_not_NaN [simp]: "round64 x \<noteq> NaN"
  by (simp add: round64_def Let_def)

lemma nadd_zero: "nadd (Fin 0) n = n"
  by (cases n) simp_all

lemma jadd64_zero: "jadd64 (N 0) (jadd64 x y) = jadd64 x y"
  by (simp add: jadd64_def nadd_zero)

lemma jsub64_double: "jsub64 x y = N a \<Longrightarrow> jadd64 (N 0) (N a) = N a"
  by (simp add: jadd64_def jsub64_def fround_Fin)

lemmas eval64 =
  js_arith_defs js64_defs round64_binades rne_def round64_minus round64_pi_quarter
  round64_pi_half arctan_minus arctan_one Let_def

section \<open>Rotating\<close>

lemma pointsBounds64_initialRotation [simp]:
  "pointsBounds64 (obj\<lparr>o_initialRotation := v\<rparr>) = pointsBounds64 obj"
  by (simp add: pointsBounds64_def split: option.splits list.splits)

lemma getObjectBounds64_initialRotation [simp]:
  "getObjectBounds64 measureText (obj\<lparr>o_initialRotation := v\<rparr>)
     = getObjectBounds64 measureText obj"
  by (cases "o_type obj")
    (simp_all add: getObjectBounds64_def getTextFont_def textOf_def Let_def cong: if_cong)

lemma rotation_handleDrag64:
  "o_rotation (handleDrag64 measureText rotate sx sy mouseX mouseY obj)
     = jadd64 (jor (o_rotation obj) (N 0)) (dragAngle64 measureText obj sx sy mouseX mouseY)"
  by (simp add: handleDrag64_def startResizing64_def dragHandle64_def commitResize_def
      applyResize64_def dragAngle64_def Let_def jor_def)

lemma initialRotation_handleDrag64:
  "o_initialRotation (handleDrag64 measureText h sx sy mouseX mouseY obj) = Undefined"
  by (simp add: handleDrag64_def startResizing64_def commitResize_def)

lemma jor_jadd64:
  "jor (jadd64 (jor r (N 0)) (N a)) (N 0) = jadd64 (jor r (N 0)) (N a)"
proof -
  obtain k where k: "toNumber (jor r (N 0)) = k" "k \<noteq> NaN"
    by (cases r rule: truthy.cases) (simp_all add: jor_def)
  then have f: "fround (nadd k (Fin a)) \<noteq> NaN"
    by (cases k) simp_all
  show ?thesis
    unfolding jadd64_def k(1) toNumber.simps using f
    by (cases "fround (nadd k (Fin a))") (simp_all add: jor_def)
qed

lemma circle_created:
  "fst (mouseupNewObject64 circleDragState (N 200) (N 200)) = Some circle100"
  by (simp add: circleDragState_def circle100_def state_defs mouseupNewObject64_def
      createObject64_def js_arith_defs js64_defs round64_binades rne_def)

lemma circle_bounds:
  "getObjectBounds64 fixedWidthFont (circle100\<lparr>o_rotation := r\<rparr>)
     = \<lparr>b_x = N 100, b_y = N 100, b_width = N 100, b_height = N 100\<rparr>"
  by (simp add: getObjectBounds64_def circle100_def blankObject_def jor_def Let_def)

lemma circle_dragAngle:
  "dragAngle64 fixedWidthFont (circle100\<lparr>o_rotation := r\<rparr>) (N 150) (N 80) (N 220) (N 80)
     = N quarterTurn"
  "dragAngle64 fixedWidthFont (circle100\<lparr>o_rotation := r\<rparr>) (N 150) (N 80) (N 220) (N 150)
     = N (quarterTurn + quarterTurn)"
  by (simp_all add: dragAngle64_def circle_bounds quarterTurn_def eval64)

lemma quarterTurn_twice: "jadd64 (N quarterTurn) (N quarterTurn) = N (quarterTurn + quarterTurn)"
  by (simp add: quarterTurn_def eval64)

lemma circle_rotation_kept:
  "handleDrag64 fixedWidthFont rotate sx sy mx my (circle100\<lparr>o_rotation := r\<rparr>)
     = circle100\<lparr>o_rotation := o_rotation (handleDrag64 fixedWidthFont rotate sx sy mx my
                                              (circle100\<lparr>o_rotation := r\<rparr>))\<rparr>"
  by (simp add: handleDrag64_def startResizing64_def dragHandle64_def commitResize_def
      applyResize64_def circle100_def blankObject_def js_arith_defs Let_def)

text \<open>
  Claim C5, as stated, fails: binary64 addition is not associative. \<open>rotatedCircle\<close>
  has the rotation 0.09 and the bounds (100, 100, 100, 100), so its rotate handle is at
  (150, 80) and its centre at (150, 150). A drag from the handle to (220, 80) adds the
  binary64 quarter turn. Two such drags leave the rotation
  934945214811473 / 2^49, which JavaScript writes 1.6607963267948964. One drag from the
  handle to (220, 150) adds the sum of two quarter turns and leaves the rotation
  7479561718491785 / 2^52, written 1.6607963267948966.
\<close>

theorem rotate_drags_differ:
  "dragAngle64 fixedWidthFont rotatedCircle (N 150) (N 80) (N 220) (N 80) = N quarterTurn \<and>
   dragAngle64 fixedWidthFont
     (handleDrag64 fixedWidthFont rotate (N 150) (N 80) (N 220) (N 80) rotatedCircle)
     (N 150) (N 80) (N 220) (N 80) = N quarterTurn \<and>
   dragAngle64 fixedWidthFont rotatedCircle (N 150) (N 80) (N 220) (N 150)
     = N (quarterTurn + quarterTurn) \<and>
   o_rotation (handleDrag64 fixedWidthFont rotate (N 150) (N 80) (N 220) (N 80)
                (handleDrag64 fixedWidthFont rotate (N 150) (N 80) (N 220) (N 80)
                   rotatedCircle))
     = N (934945214811473 / 562949953421312) \<and>
   o_rotation (handleDrag64 fixedWidthFont rotate (N 150) (N 80) (N 220) (N 150) rotatedCircle)
     = N (7479561718491785 / 4503599627370496) \<and>
   (934945214811473 / 562949953421312 :: real) \<noteq> 7479561718491785 / 4503599627370496"
proof -
  have one: "o_rotation (handleDrag64 fixedWidthFont rotate (N 150) (N 80) (N 220) (N 80)
                           rotatedCircle)
               = N (7884885684955129 / 9007199254740992)"
    unfolding rotatedCircle_def rotation_handleDrag64 circle_dragAngle
    by (simp add: quarterTurn_def circle100_def jor_def eval64)
  have kept: "handleDrag64 fixedWidthFont rotate (N 150) (N 80) (N 220) (N 80) rotatedCircle
               = circle100\<lparr>o_rotation := N (7884885684955129 / 9007199254740992)\<rparr>"
    unfolding rotatedCircle_def
    by (subst circle_rotation_kept) (simp only: one [unfolded rotatedCircle_def])
  have two: "o_rotation (handleDrag64 fixedWidthFont rotate (N 150) (N 80) (N 220) (N 80)
                (handleDrag64 fixedWidthFont rotate (N 150) (N 80) (N 220) (N 80)
                   rotatedCircle))
               = N (934945214811473 / 562949953421312)"
    unfolding kept rotation_handleDrag64 circle_dragAngle
    by (simp add: quarterTurn_def jor_def eval64)
  have single: "o_rotation (handleDrag64 fixedWidthFont rotate (N 150) (N 80) (N 220) (N 150)
                              rotatedCircle)
               = N (7479561718491785 / 4503599627370496)"
    unfolding rotatedCircle_def rotation_handleDrag64 circle_dragAngle
    by (simp add: quarterTurn_def circle100_def jor_def eval64)
  have a1: "dragAngle64 fixedWidthFont rotatedCircle (N 150) (N 80) (N 220) (N 80)
              = N quarterTurn"
    unfolding rotatedCircle_def by (rule circle_dragAngle)
  have a2: "dragAngle64 fixedWidthFont
     (handleDrag64 fixedWidthFont rotate (N 150) (N 80) (N 220) (N 80) rotatedCircle)
     (N 150) (N 80) (N 220) (N 80) = N quarterTurn"
    unfolding kept by (rule circle_dragAngle)
  have a3: "dragAngle64 fixedWidthFont rotatedCircle (N 150) (N 80) (N 220) (N 150)
     = N (quarterTurn + quarterTurn)"
    unfolding rotatedCircle_def by (rule circle_dragAngle)
  have ne: "(934945214811473 / 562949953421312 :: real) \<noteq> 7479561718491785 / 4503599627370496"
    by simp
  from a1 a2 a3 two single ne show ?thesis by blast
qed

text \<open>
  Claim C5, amended: a rotate drag sets the rotation to the binary64 sum of the rotation
  at its start (0 when there is none) and the angle of the drag, and its commit removes
  \<open>initialRotation\<close>. So a drag that adds the angle \<open>a\<close>, its commit, and a second
  drag that adds \<open>b\<close> from the new baseline leave the rotation \<open>(r + a) + b\<close>, each sum
  rounded, and one drag from the original baseline that adds the binary64 sum of \<open>a\<close>
  and \<open>b\<close> leaves \<open>r + (a + b)\<close>, each sum rounded. The two are equal when the object
  is unrotated at the start.
\<close>

theorem rotate_drags_compose:
  assumes "dragAngle64 measureText obj sx1 sy1 mx1 my1 = N a"
    and "dragAngle64 measureText (handleDrag64 measureText rotate sx1 sy1 mx1 my1 obj)
           sx2 sy2 mx2 my2 = N b"
    and "dragAngle64 measureText obj sx sy mx my = jadd64 (N a) (N b)"
  shows
   "o_rotation (handleDrag64 measureText rotate sx1 sy1 mx1 my1 obj)
      = jadd64 (jor (o_rotation obj) (N 0)) (N a) \<and>
    o_initialRotation (handleDrag64 measureText rotate sx1 sy1 mx1 my1 obj) = Undefined \<and>
    o_rotation (handleDrag64 measureText rotate sx2 sy2 mx2 my2
                  (handleDrag64 measureText rotate sx1 sy1 mx1 my1 obj))
      = jadd64 (jadd64 (jor (o_rotation obj) (N 0)) (N a)) (N b) \<and>
    o_rotation (handleDrag64 measureText rotate sx sy mx my obj)
      = jadd64 (jor (o_rotation obj) (N 0)) (jadd64 (N a) (N b)) \<and>
    (\<not> truthy (o_rotation obj) \<longrightarrow>
       o_rotation (handleDrag64 measureText rotate sx2 sy2 mx2 my2
                     (handleDrag64 measureText rotate sx1 sy1 mx1 my1 obj))
         = o_rotation (handleDrag64 measureText rotate sx sy mx my obj))"
proof -
  have one: "o_rotation (handleDrag64 measureText rotate sx1 sy1 mx1 my1 obj)
      = jadd64 (jor (o_rotation obj) (N 0)) (N a)"
    by (simp add: rotation_handleDrag64 assms(1))
  have two: "o_rotation (handleDrag64 measureText rotate sx2 sy2 mx2 my2
                  (handleDrag64 measureText rotate sx1 sy1 mx1 my1 obj))
      = jadd64 (jadd64 (jor (o_rotation obj) (N 0)) (N a)) (N b)"
    by (simp add: rotation_handleDrag64 [of _ sx2] assms(2) one jor_jadd64)
  have single: "o_rotation (handleDrag64 measureText rotate sx sy mx my obj)
      = jadd64 (jor (o_rotation obj) (N 0)) (jadd64 (N a) (N b))"
    by (simp add: rotation_handleDrag64 assms(3))
  have da: "jadd64 (N 0) (N a) = N a"
    using assms(1) unfolding dragAngle64_def Let_def by (rule jsub64_double)
  have "jadd64 (jadd64 (N 0) (N a)) (N b) = jadd64 (N 0) (jadd64 (N a) (N b))"
    by (simp add: da jadd64_zero)
  then show ?thesis
    using one two single by (simp add: initialRotation_handleDrag64 jor_def)
qed

theorem rotate_drags_compose_witness:
  "dragAngle64 fixedWidthFont rotatedCircle (N 150) (N 80) (N 220) (N 80) = N quarterTurn \<and>
   dragAngle64 fixedWidthFont
     (handleDrag64 fixedWidthFont rotate (N 150) (N 80) (N 220) (N 80) rotatedCircle)
     (N 150) (N 80) (N 220) (N 80) = N quarterTurn \<and>
   dragAngle64 fixedWidthFont rotatedCircle (N 150) (N 80) (N 220) (N 150)
     = jadd64 (N quarterTurn) (N quarterTurn) \<and>
   o_rotation (handleDrag64 fixedWidthFont rotate (N 150) (N 80) (N 220) (N 80) rotatedCircle)
     = N (7884885684955129 / 9007199254740992) \<and>
   o_initialRotation
     (handleDrag64 fixedWidthFont rotate (N 150) (N 80) (N 220) (N 80) rotatedCircle)
     = Undefined \<and>
   dragAngle64 fixedWidthFont circle100 (N 150) (N 80) (N 220) (N 80) = N quarterTurn \<and>
   dragAngle64 fixedWidthFont
     (handleDrag64 fixedWidthFont rotate (N 150) (N 80) (N 220) (N 80) circle100)
     (N 150) (N 80) (N 220) (N 80) = N quarterTurn \<and>
   dragAngle64 fixedWidthFont circle100 (N 150) (N 80) (N 220) (N 150)
     = jadd64 (N quarterTurn) (N quarterTurn) \<and>
   \<not> truthy (o_rotation circle100) \<and>
   o_rotation (handleDrag64 fixedWidthFont rotate (N 150) (N 80) (N 220) (N 80)
                (handleDrag64 fixedWidthFont rotate (N 150) (N 80) (N 220) (N 80) circle100))
     = N (quarterTurn + quarterTurn) \<and>
   o_rotation (handleDrag64 fixedWidthFont rotate (N 150) (N 80) (N 220) (N 150) circle100)
     = N (quarterTurn + quarterTurn)"
proof -
  have c: "circle100 = circle100\<lparr>o_rotation := N 0\<rparr>"
    by (simp add: circle100_def)
  have r1: "dragAngle64 fixedWidthFont rotatedCircle (N 150) (N 80) (N 220) (N 80)
              = N quarterTurn"
    unfolding rotatedCircle_def by (rule circle_dragAngle)
  have r2: "dragAngle64 fixedWidthFont
     (handleDrag64 fixedWidthFont rotate (N 150) (N 80) (N 220) (N 80) rotatedCircle)
     (N 150) (N 80) (N 220) (N 80) = N quarterTurn"
    unfolding rotatedCircle_def by (subst circle_rotation_kept) (rule circle_dragAngle)
  have r3: "dragAngle64 fixedWidthFont rotatedCircle (N 150) (N 80) (N 220) (N 150)
     = jadd64 (N quarterTurn) (N quarterTurn)"
    unfolding rotatedCircle_def quarterTurn_twice by (rule circle_dragAngle)
  have u1: "dragAngle64 fixedWidthFont circle100 (N 150) (N 80) (N 220) (N 80) = N quarterTurn"
    by (subst c) (rule circle_dragAngle)
  have u2: "dragAngle64 fixedWidthFont
     (handleDrag64 fixedWidthFont rotate (N 150) (N 80) (N 220) (N 80) circle100)
     (N 150) (N 80) (N 220) (N 80) = N quarterTurn"
    by (subst c, subst circle_rotation_kept) (rule circle_dragAngle)
  have u3: "dragAngle64 fixedWidthFont circle100 (N 150) (N 80) (N 220) (N 150)
     = jadd64 (N quarterTurn) (N quarterTurn)"
    unfolding quarterTurn_twice by (subst c) (rule circle_dragAngle)
  have u0: "\<not> truthy (o_rotation circle100)" "o_rotation circle100 = N 0"
    "o_rotation rotatedCircle = N (3242591731706757 / 36028797018963968)"
    by (simp_all add: circle100_def rotatedCircle_def)
  have v: "jadd64 (N (3242591731706757 / 36028797018963968)) (N quarterTurn)
             = N (7884885684955129 / 9007199254740992)"
    "jadd64 (N 0) (jadd64 (N quarterTurn) (N quarterTurn)) = N (quarterTurn + quarterTurn)"
    "jadd64 (N 0) (N quarterTurn) = N quarterTurn"
    "jadd64 (N quarterTurn) (N quarterTurn) = N (quarterTurn + quarterTurn)"
    by (simp_all add: quarterTurn_def jor_def eval64)
  from rotate_drags_compose [OF r1 r2 r3] rotate_drags_compose [OF u1 u2 u3]
    r1 r2 r3 u1 u2 u3 u0 v
  show ?thesis
    by (simp add: jor_def)
qed

section \<open>Creating objects\<close>












text \<open>
  Claim C10 does not hold for the shape picker. A click with the check tool itself makes
  the 20 by 20 box centred on the click point. With a check picked in the shape menu the
  active tool is \<open>shape\<close>, and mouseup tests for the tools \<open>rect\<close>, \<open>circle\<close>,
  \<open>arrow\<close>, \<open>blur\<close> and \<open>shape\<close> before it tests for a check or cross: the click
  makes a box whose side is the line width, 5 after the shape tool was chosen.
\<close>

theorem click_check_shape_picker:
  "boxOf (fst (mouseupNewObject checkToolState (N 102) (N 101)))
     = Some (Check, N 90, N 90, N 20, N 20) \<and>
   boxOf (fst (mouseupNewObject pickedCheckState (N 102) (N 101)))
     = Some (Check, N (195 / 2), N (195 / 2), N 5, N 5)"
  by (simp add: checkToolState_def pickedCheckState_def checkPicked_def boxOf_def
      state_defs js_arith_defs)

section \<open>Undo and redo\<close>

lemma marker_created: "mouseupNewObject markerState (N 50) (N 50) = (Some marker1, 2)"
  by (simp add: markerState_def marker1_def state_defs js_arith_defs)

lemma markerPlaced_fields:
  "heap markerPlaced 0 = marker1" "drawingStack markerPlaced = [0]"
  "undoStack markerPlaced = [[]]"
  by (simp_all add: markerPlaced_def markerState_def marker1_def state_defs js_arith_defs)

lemma marker_resized:
  "handleDrag fixedWidthFont se_resize (N 68) (N 68) (N 78) (N 78) marker1 = resizedMarker"
  by (simp add: handleDrag_def startResizing_def dragHandle_def commitResize_def
      applyResize_def getObjectBounds_def marker1_def resizedMarker_def blankObject_def
      js_arith_defs Let_def)

lemma resizedMarkerState_fields:
  "document resizedMarkerState = [resizedMarker]"
  "undoStack resizedMarkerState = [[], [marker1], [marker1]]"
  by (simp_all add: resizedMarkerState_def markerPlaced_fields marker_resized document_def)

lemma rectState_fields:
  "document rectState = [rect100]" "drawingStack rectState = [0]"
  "undoStack rectState = [[]]" "selectedObject rectState = None"
  by (simp_all add: rectState_def rect100_def state_defs js_arith_defs)

lemma jsonValue_id: "jsonRepresentable v \<Longrightarrow> jsonValue v = v"
  by (cases v rule: jsonRepresentable.cases) auto

lemma jsonPoint_id:
  "jsonRepresentable (p_x p) \<and> jsonRepresentable (p_y p) \<Longrightarrow> jsonPoint p = p"
  by (simp add: jsonPoint_def jsonValue_id)

lemma jsonObject_id:
  assumes "representableObject obj"
  shows "jsonObject obj = obj"
proof -
  have "map_option (map jsonPoint) (o_points obj) = o_points obj"
    using assms
    by (cases "o_points obj")
      (auto simp: representableObject_def pointsOf_def list_all_iff jsonPoint_id
        intro!: map_idI)
  then show ?thesis
    using assms by (simp add: jsonObject_def representableObject_def jsonValue_id)
qed

lemma stringify_id:
  "\<forall>obj \<in> set objs. representableObject obj \<Longrightarrow> JSON_stringify objs = objs"
  by (simp add: JSON_stringify_def jsonObject_id map_idI)

lemma document_assign [simp]: "document (assignDrawingStack objs s) = objs"
  by (auto simp: document_def assignDrawingStack_def intro!: nth_equalityI)

lemma assign_stacks [simp]:
  "undoStack (assignDrawingStack objs s) = undoStack s"
  "redoStack (assignDrawingStack objs s) = redoStack s"
  by (simp_all add: assignDrawingStack_def)

lemma undo_fields:
  assumes "undoStack s \<noteq> []"
  shows "document (undo s) = last (undoStack s)"
    and "undoStack (undo s) = butlast (undoStack s)"
    and "redoStack (undo s) = redoStack s @ [JSON_stringify (document s)]"
  using assms
  by (simp_all add: undo_def Let_def JSON_parse_def
      document_def [of "_\<lparr>selectedObject := None\<rparr>"] document_assign [unfolded document_def])

lemma redo_fields:
  assumes "redoStack s \<noteq> []"
  shows "document (redo s) = last (redoStack s)"
    and "redoStack (redo s) = butlast (redoStack s)"
    and "undoStack (redo s) = undoStack s @ [JSON_stringify (document s)]"
  using assms
  by (simp_all add: redo_def Let_def JSON_parse_def
      document_def [of "_\<lparr>selectedObject := None\<rparr>"] document_assign [unfolded document_def])

lemma document_redo_undo:
  "undoStack s \<noteq> [] \<Longrightarrow> document (redo (undo s)) = JSON_stringify (document s)"
  by (simp add: redo_fields undo_fields)

lemma document_undo_redo:
  "redoStack s \<noteq> [] \<Longrightarrow> document (undo (redo s)) = JSON_stringify (document s)"
  by (simp add: redo_fields undo_fields)

text \<open>
  Claim C1, as stated, fails. After a number marker has been resized, its width, height,
  original width and original height are NaN. Undo serialises the Document for the redo
  stack, and \<open>JSON.stringify\<close> writes NaN as \<open>null\<close>: after undo and redo the four
  properties are \<open>null\<close>, and the Document is not the one before.
\<close>

theorem undo_redo_loses_NaN:
  "undoStack resizedMarkerState \<noteq> [] \<and>
   document resizedMarkerState = [resizedMarker] \<and>
   document (redo (undo resizedMarkerState))
     = [resizedMarker\<lparr>o_width := Null, o_height := Null,
                      o_originalWidth := Null, o_originalHeight := Null\<rparr>] \<and>
   document (redo (undo resizedMarkerState)) \<noteq> document resizedMarkerState"
proof -
  have u: "undoStack resizedMarkerState \<noteq> []"
    by (simp add: resizedMarkerState_fields)
  have d: "document resizedMarkerState = [resizedMarker]"
    by (simp add: resizedMarkerState_fields)
  have j: "jsonObject resizedMarker
             = resizedMarker\<lparr>o_width := Null, o_height := Null,
                              o_originalWidth := Null, o_originalHeight := Null\<rparr>"
    by (simp add: jsonObject_def resizedMarker_def marker1_def blankObject_def)
  have n: "resizedMarker\<lparr>o_width := Null, o_height := Null,
                          o_originalWidth := Null, o_originalHeight := Null\<rparr> \<noteq> resizedMarker"
    by (simp add: resizedMarker_def marker1_def blankObject_def)
  show ?thesis
    using u n by (simp add: document_redo_undo d JSON_stringify_def j)
qed

text \<open>
  Claim C1, amended: for every editor state whose Document holds only JSON-representable
  objects, when a redo is available, redo then undo leaves the Document equal to what it
  was, and when an undo is available, undo then redo does.
\<close>

theorem undo_redo_inverse:
  assumes "\<forall>obj \<in> set (document s). representableObject obj"
  shows "(redoStack s \<noteq> [] \<longrightarrow> document (undo (redo s)) = document s) \<and>
         (undoStack s \<noteq> [] \<longrightarrow> document (redo (undo s)) = document s)"
  by (simp add: document_redo_undo document_undo_redo stringify_id [OF assms])

theorem undo_redo_inverse_witness:
  "list_all representableObject (document rectState) \<and>
   undoStack rectState \<noteq> [] \<and>
   document (redo (undo rectState)) = document rectState \<and>
   list_all representableObject (document (undo rectState)) \<and>
   redoStack (undo rectState) \<noteq> [] \<and>
   document (undo (redo (undo rectState))) = document (undo rectState)"
proof -
  have d: "document rectState = [rect100]"
    by (simp add: rectState_fields)
  have r: "representableObject rect100"
    by (simp add: representableObject_def rect100_def blankObject_def pointsOf_def)
  have u: "undoStack rectState \<noteq> []"
    by (simp add: rectState_fields)
  have h: "\<forall>obj \<in> set (document rectState). representableObject obj"
    by (simp add: d r)
  have d2: "document (undo rectState) = []"
    using u by (simp add: undo_fields rectState_fields)
  have h2: "\<forall>obj \<in> set (document (undo rectState)). representableObject obj"
    by (simp add: d2)
  have r2: "redoStack (undo rectState) \<noteq> []"
    using u by (simp add: undo_fields)
  from undo_redo_inverse [OF h] undo_redo_inverse [OF h2] h h2 u r2 show ?thesis
    by (simp add: list_all_iff)
qed

section \<open>Selection and hover after a removal\<close>

lemma indexOf_mem: "r \<in> set xs \<Longrightarrow> 0 \<le> indexOf xs r \<and> indexOf xs r < int (length xs)"
  by (induction xs) (auto simp: Let_def)

lemma splice1_indexOf: "r \<in> set xs \<Longrightarrow> splice1 xs (indexOf xs r) = remove1 r xs"
proof (induction xs)
  case Nil
  then show ?case by simp
next
  case (Cons a xs)
  show ?case
  proof (cases "a = r")
    case True
    then show ?thesis by (simp add: splice1_def)
  next
    case False
    then have mem: "r \<in> set xs" using Cons.prems by simp
    from indexOf_mem [OF mem] have i: "0 \<le> indexOf xs r" "indexOf xs r < int (length xs)"
      by auto
    have "splice1 (a # xs) (indexOf xs r + 1) = a # splice1 xs (indexOf xs r)"
      using i by (simp add: splice1_def Let_def nat_add_distrib min_def)
    then show ?thesis using False i Cons.IH [OF mem] by (simp add: Let_def)
  qed
qed

lemma eraseAt_references [simp]:
  "selectedObject (eraseAt measureText s x y) = selectedObject s"
  "hoveredObject (eraseAt measureText s x y) = hoveredObject s"
  by (simp_all add: eraseAt_def Let_def split: option.splits)

lemma mousemoveDraw_references [simp]:
  "selectedObject (mousemoveDraw measureText s x y) = selectedObject s"
  "hoveredObject (mousemoveDraw measureText s x y) = hoveredObject s"
  by (simp_all add: mousemoveDraw_def split: option.splits)

lemma drawMoves_references [simp]:
  "selectedObject (drawMoves measureText s moves) = selectedObject s"
  "hoveredObject (drawMoves measureText s moves) = hoveredObject s"
  by (induction measureText s moves rule: drawMoves.induct) simp_all

lemma mousedownDraw_references [simp]:
  "selectedObject (mousedownDraw measureText s x y) = None"
  "hoveredObject (mousedownDraw measureText s x y) = hoveredObject s"
  by (simp_all add: mousedownDraw_def Let_def pushToUndoStack_def pushObject_def)

lemma mouseupDraw_references [simp]:
  "selectedObject (mouseupDraw s x y) = selectedObject s"
  "hoveredObject (mouseupDraw s x y) = hoveredObject s"
  by (simp_all add: mouseupDraw_def pushObject_def Let_def split: prod.splits option.splits)

lemma keydownDelete_references [simp]:
  "selectedObject (keydownDelete s) = None"
  "hoveredObject (keydownDelete s) = hoveredObject s"
  by (simp_all add: keydownDelete_def Let_def pushToUndoStack_def split: option.splits)

lemma keydownDelete_removes:
  assumes "selectedObject s = Some r" "r \<in> set (drawingStack s)" "distinct (drawingStack s)"
  shows "drawingStack (keydownDelete s) = remove1 r (drawingStack s)"
  using assms by (simp add: keydownDelete_def Let_def pushToUndoStack_def splice1_indexOf)

lemma applyText_references:
  assumes "isEditingText s" "currentTextObj s = Some cur" "o_text (heap s cur) = Some t"
  shows "map_sum id selectedObject (applyText s) = Inr None"
    and "map_sum id hoveredObject (applyText s) = Inr (hoveredObject s)"
  using assms by (simp_all add: applyText_def Let_def)

text \<open>
  Claim C9, as stated, fails for the hover reference. No removal touches
  \<open>hoveredObject\<close>; only the hover listener sets it, on a mouse move while nothing is
  being drawn. When the mouse rests on an object, the eraser tool is chosen with its key
  and the mouse is pressed, the object leaves the drawing stack and \<open>hoveredObject\<close>
  still points at it.
\<close>

theorem hover_dangles_after_erase:
  "hoveredObject hoverThenErase = Some 0 \<and> drawingStack hoverThenErase = [] \<and>
   dangling hoverThenErase (hoveredObject hoverThenErase)"
  by (simp add: hoverThenErase_def rectState_def state_defs mousemoveHover_def
      getObjectAt_def objectHit_def getObjectBounds_def splice1_def dangling_def
      js_arith_defs)

text \<open>
  Claim C9, amended: after the Delete key, after a click or drag of the eraser tool (a
  press, any moves and the release), and after the commit of a text being edited, the
  selection is none, so it does not point at an object absent from the Document, and the
  hover reference is what it was before. Deleting the selected object takes it off the drawing stack and sets the
  selection to none, and the commit of a text raises no error when the edited object has
  a text.
\<close>

theorem removal_clears_selection:
  "selectedObject (keydownDelete s) = None \<and>
   hoveredObject (keydownDelete s) = hoveredObject s \<and>
   (selectedObject s = Some r \<and> r \<in> set (drawingStack s) \<and> distinct (drawingStack s) \<longrightarrow>
      drawingStack (keydownDelete s) = remove1 r (drawingStack s) \<and>
      \<not> dangling (keydownDelete s) (selectedObject (keydownDelete s))) \<and>
   (activeTool s = Eraser \<longrightarrow>
      selectedObject (drawGesture measureText s x y moves endX endY) = None \<and>
      hoveredObject (drawGesture measureText s x y moves endX endY) = hoveredObject s) \<and>
   (isEditingText s \<and> currentTextObj s = Some cur \<and> o_text (heap s cur) = Some t \<longrightarrow>
      map_sum id selectedObject (applyText s) = Inr None \<and>
      map_sum id hoveredObject (applyText s) = Inr (hoveredObject s))"
  by (simp add: drawGesture_def keydownDelete_removes applyText_references dangling_def)

theorem removal_clears_selection_witness:
  "selectedObject selectedRectState = Some 0 \<and> 0 \<in> set (drawingStack selectedRectState) \<and>
   distinct (drawingStack selectedRectState) \<and>
   drawingStack (keydownDelete selectedRectState) = [] \<and>
   selectedObject (keydownDelete selectedRectState) = None \<and>
   activeTool (setActiveTool Eraser rectState) = Eraser \<and>
   selectedObject (drawGesture fixedWidthFont (setActiveTool Eraser rectState)
                     (N 50) (N 50) [] (N 50) (N 50)) = None \<and>
   drawingStack (drawGesture fixedWidthFont (setActiveTool Eraser rectState)
                   (N 50) (N 50) [] (N 50) (N 50)) = [] \<and>
   isEditingText emptyTextState \<and> currentTextObj emptyTextState = Some 0 \<and>
   o_text (heap emptyTextState 0) = Some [] \<and>
   map_sum id selectedObject (applyText emptyTextState) = Inr None \<and>
   map_sum id drawingStack (applyText emptyTextState) = Inr []"
proof -
  have a: "selectedObject selectedRectState = Some 0"
    "0 \<in> set (drawingStack selectedRectState)" "distinct (drawingStack selectedRectState)"
    "drawingStack selectedRectState = [0]"
    by (simp_all add: selectedRectState_def rectState_fields)
  have b: "isEditingText emptyTextState" "currentTextObj emptyTextState = Some 0"
    "o_text (heap emptyTextState 0) = Some []"
    by (simp_all add: emptyTextState_def setActiveTool_def initialState_def)
  have c: "map_sum id drawingStack (applyText emptyTextState) = Inr []"
    by (simp add: applyText_def emptyTextState_def setActiveTool_def initialState_def
        trim_def splice1_def Let_def)
  have e: "activeTool (setActiveTool Eraser rectState) = Eraser"
    "drawingStack (drawGesture fixedWidthFont (setActiveTool Eraser rectState)
                     (N 50) (N 50) [] (N 50) (N 50)) = []"
    by (simp_all add: drawGesture_def rectState_def state_defs getObjectAt_def
        objectHit_def getObjectBounds_def splice1_def js_arith_defs)
  from removal_clears_selection [where s = selectedRectState and r = 0]
    removal_clears_selection [where s = "setActiveTool Eraser rectState"
      and measureText = fixedWidthFont and x = "N 50" and y = "N 50" and moves = "[]"
      and endX = "N 50" and endY = "N 50"]
    removal_clears_selection [where s = emptyTextState and cur = 0 and t = "[]"] a b c e
  show ?thesis by simp
qed

end
